theory Spec2Isabelle
  imports Complex_Main "HOL-Library.Multiset"
begin

section \<open>Errors and tensors\<close>

text \<open>
  Every exception that \<^verbatim>\<open>nv_tacotron_dataset.py\<close> can let escape is a value of
  \<open>py_error\<close>; a function that may raise returns \<open>py_error + 'a\<close>, with \<open>Inl\<close> the
  exception. \<open>IOError\<close> stands for whatever a library call outside this file raises.
\<close>

datatype py_error =
    IndexError
  | ZeroDivisionError
  | RuntimeError
  | TypeError
  | AttributeError
  | AssertionError
  | NotImplementedError
  | RecursionError
  | IOError

text \<open>
  A two-dimensional tensor: its shape and its entries. The entries are read only inside
  the shape, so every value of the record is a tensor. The collator only copies the
  entries of a mel and writes 0.0 and 1.0; there they are real numbers.
\<close>

record 'a tensor2 =
  size0 :: nat
  size1 :: nat
  elem :: "nat \<Rightarrow> nat \<Rightarrow> 'a"

text \<open>One element of a batch, as the collator reads it:
  \<^verbatim>\<open>[text_normalized, mel_normalized, filename]\<close>.\<close>

type_synonym sample = "int list \<times> real tensor2 \<times> string"

definition s_text :: "sample \<Rightarrow> int list" where
  "s_text x = fst x"

definition s_mel :: "sample \<Rightarrow> real tensor2" where
  "s_mel x = fst (snd x)"

definition s_name :: "sample \<Rightarrow> string" where
  "s_name x = snd (snd x)"

section \<open>TextMelCollate\<close>

text \<open>The dictionary that \<^verbatim>\<open>TextMelCollate.__call__\<close> returns.\<close>

record batch =
  padded_text :: "int list list"
  input_lengths :: "nat list"
  padded_mel :: "real list list list"
  padded_gate :: "real list list"
  output_lengths :: "nat list"
  filenames :: "string list"

text \<open>
  \<^verbatim>\<open>torch.sort(xs, dim=0, descending=True)\<close> is a library call: it is a parameter
  \<open>srt\<close> of the collator, returning the sorted values and the indices they came from.
  What the library promises about it on the input \<open>xs\<close> is \<open>torch_sort_ok\<close>; the order
  among equal keys is left open, as in the library. The collator is modelled for results
  that keep this promise.
\<close>

definition torch_sort_ok :: "(nat list \<Rightarrow> nat list \<times> nat list) \<Rightarrow> nat list \<Rightarrow> bool" where
  "torch_sort_ok srt xs =
     (case srt xs of (vals, ids) \<Rightarrow>
        mset ids = mset [0..<length xs] \<and> vals = map ((!) xs) ids \<and> sorted_wrt (\<ge>) vals)"

text \<open>One instance of the library call, used to run the collator: insertion of
  (key, index) pairs into a descending list, equal keys kept in input order.\<close>

fun insert_desc :: "nat \<times> nat \<Rightarrow> (nat \<times> nat) list \<Rightarrow> (nat \<times> nat) list" where
  "insert_desc p [] = [p]"
| "insert_desc p (q # qs) = (if fst q < fst p then p # q # qs else q # insert_desc p qs)"

definition sort_descending :: "nat list \<Rightarrow> nat list \<times> nat list" where
  "sort_descending xs =
     (let ps = foldr insert_desc (zip xs [0..<length xs]) [] in (map fst ps, map snd ps))"

text \<open>Running a fallible step over a list, stopping at the first exception as the
  \<^verbatim>\<open>for\<close> loop does.\<close>

fun map_err :: "('a \<Rightarrow> py_error + 'b) \<Rightarrow> 'a list \<Rightarrow> py_error + 'b list" where
  "map_err f [] = Inr []"
| "map_err f (x # xs) =
     (case f x of
        Inl e \<Rightarrow> Inl e
      | Inr y \<Rightarrow> (case map_err f xs of Inl e \<Rightarrow> Inl e | Inr ys \<Rightarrow> Inr (y # ys)))"

text \<open>
  Lines 159 to 162, one round of the loop for the batch index \<open>k = ids_sorted_decreasing[i]\<close>:
  \<^verbatim>\<open>batch[k]\<close> raises IndexError out of range, and the slice assignment
  \<^verbatim>\<open>text_padded[i, :text.size(0)] = text\<close> copies the text to the left of a zero row of
  length \<open>max_input_len\<close>; a text longer than the row does not fit the slice.
\<close>

definition text_step :: "sample list \<Rightarrow> nat \<Rightarrow> nat \<Rightarrow> py_error + (int list \<times> string)" where
  "text_step batch max_input_len k =
     (if length batch \<le> k then Inl IndexError
      else let text = s_text (batch ! k) in
        if max_input_len < length text then Inl RuntimeError
        else Inr (text @ replicate (max_input_len - length text) 0, s_name (batch ! k)))"

text \<open>
  Lines 166 to 169: the longest mel, rounded up to a multiple of \<open>n_frames_per_step\<close>.
  The frame-grouping factor is a count, a \<open>nat\<close>; \<^verbatim>\<open>%\<close> by zero raises.
\<close>

definition round_target_len :: "nat \<Rightarrow> nat \<Rightarrow> py_error + nat" where
  "round_target_len n_frames_per_step max_target_len =
     (if n_frames_per_step = 0 then Inl ZeroDivisionError
      else if max_target_len mod n_frames_per_step \<noteq> 0 then
        (let max_target_len' =
               max_target_len + (n_frames_per_step - max_target_len mod n_frames_per_step)
         in if max_target_len' mod n_frames_per_step = 0 then Inr max_target_len'
            else Inl AssertionError)
      else Inr max_target_len)"

text \<open>
  Line 179, \<^verbatim>\<open>mel_padded[i, :, :mel.size(1)] = mel\<close>, on a zero block of shape
  \<open>[num_mels, max_target_len]\<close>: the mel is copied into the left columns. A mel with one
  row is broadcast over the channels; any other channel count, or a mel wider than the
  block, raises.
\<close>

definition pad_mel :: "nat \<Rightarrow> nat \<Rightarrow> real tensor2 \<Rightarrow> real list list" where
  "pad_mel num_mels max_target_len mel =
     map (\<lambda>c. map (\<lambda>j. if j < size1 mel then elem mel c j else 0) [0..<max_target_len])
         [0..<num_mels]"

definition mel_rows :: "nat \<Rightarrow> nat \<Rightarrow> real tensor2 \<Rightarrow> py_error + real list list" where
  "mel_rows num_mels max_target_len mel =
     (if max_target_len < size1 mel then Inl RuntimeError
      else if size0 mel = num_mels then Inr (pad_mel num_mels max_target_len mel)
      else if size0 mel = 1 then
        Inr (pad_mel num_mels max_target_len (mel\<lparr> elem := (\<lambda>c. elem mel 0) \<rparr>))
      else Inl RuntimeError)"

text \<open>
  Line 180, \<^verbatim>\<open>gate_padded[i, mel.size(1)-1:] = 1\<close>, on a zero row of length
  \<open>max_target_len\<close>. The slice starts at \<open>mel.size(1) - 1\<close>; for a mel without frames that
  is \<open>-1\<close>, which Python counts from the end of the row.
\<close>

definition gate_start :: "nat \<Rightarrow> nat \<Rightarrow> nat" where
  "gate_start max_target_len frames =
     (if frames = 0 then max_target_len - 1 else min (frames - 1) max_target_len)"

definition gate_row :: "nat \<Rightarrow> nat \<Rightarrow> real list" where
  "gate_row max_target_len frames =
     map (\<lambda>j. if gate_start max_target_len frames \<le> j then 1 else 0) [0..<max_target_len]"

definition mel_step ::
  "sample list \<Rightarrow> nat \<Rightarrow> nat \<Rightarrow> nat \<Rightarrow> py_error + (real list list \<times> real list \<times> nat)" where
  "mel_step batch num_mels max_target_len k =
     (if length batch \<le> k then Inl IndexError
      else let mel = s_mel (batch ! k) in
        case mel_rows num_mels max_target_len mel of
          Inl e \<Rightarrow> Inl e
        | Inr rows \<Rightarrow> Inr (rows, gate_row max_target_len (size1 mel), size1 mel))"

text \<open>\<^verbatim>\<open>max([x[1].size(1) for x in batch])\<close> of a non-empty batch.\<close>

definition max_frames :: "sample list \<Rightarrow> nat" where
  "max_frames batch = fold max (map (\<lambda>x. size1 (s_mel x)) batch) 0"

text \<open>\<^verbatim>\<open>TextMelCollate.__call__\<close>, lines 150 to 190, in the order of the source.\<close>

definition TextMelCollate_call ::
  "(nat list \<Rightarrow> nat list \<times> nat list) \<Rightarrow> nat \<Rightarrow> sample list \<Rightarrow> py_error + batch" where
  "TextMelCollate_call srt n_frames_per_step batch =
     (case srt (map (\<lambda>x. length (s_text x)) batch) of (input_lens, ids_sorted_decreasing) \<Rightarrow>
      (case input_lens of
         [] \<Rightarrow> Inl IndexError
       | max_input_len # _ \<Rightarrow>
      (case map_err (text_step batch max_input_len) ids_sorted_decreasing of
         Inl e \<Rightarrow> Inl e
       | Inr texts \<Rightarrow>
      (case batch of
         [] \<Rightarrow> Inl IndexError
       | first # _ \<Rightarrow>
      (let num_mels = size0 (s_mel first) in
      (case round_target_len n_frames_per_step (max_frames batch) of
         Inl e \<Rightarrow> Inl e
       | Inr max_target_len \<Rightarrow>
      (case map_err (mel_step batch num_mels max_target_len) ids_sorted_decreasing of
         Inl e \<Rightarrow> Inl e
       | Inr mels \<Rightarrow>
         Inr \<lparr> padded_text = map fst texts,
               input_lengths = input_lens,
               padded_mel = map fst mels,
               padded_gate = map (\<lambda>m. fst (snd m)) mels,
               output_lengths = map (\<lambda>m. snd (snd m)) mels,
               filenames = map snd texts \<rparr>)))))))"

text \<open>
  The slices \<^verbatim>\<open>xs[k:]\<close> and \<^verbatim>\<open>xs[:k]\<close> of Python, in which the gate property is
  written (\<^verbatim>\<open>gate[i, output_lengths[i]-1:]\<close>): a negative \<open>k\<close> counts from the end of
  the sequence, and the position is cut to the sequence.
\<close>

definition py_slice_start :: "nat \<Rightarrow> int \<Rightarrow> nat" where
  "py_slice_start n k = (if k < 0 then nat (max 0 (int n + k)) else min (nat k) n)"

definition py_slice_from :: "'a list \<Rightarrow> int \<Rightarrow> 'a list" where
  "py_slice_from xs k = drop (py_slice_start (length xs) k) xs"

definition py_slice_upto :: "'a list \<Rightarrow> int \<Rightarrow> 'a list" where
  "py_slice_upto xs k = take (py_slice_start (length xs) k) xs"

text \<open>Concrete batches on which the collator is run below: a mel whose entries all
  have one value, three samples of different lengths, a sample without frames, and a
  single one-frame sample.\<close>

definition const_mel :: "nat \<Rightarrow> nat \<Rightarrow> 'a \<Rightarrow> 'a tensor2" where
  "const_mel c f v = \<lparr> size0 = c, size1 = f, elem = (\<lambda>_ _. v) \<rparr>"

definition demo_batch :: "sample list" where
  "demo_batch = [([1, 2], const_mel 2 3 (1/2), ''a''), ([3], const_mel 2 1 (1/4), ''b''),
                 ([4, 5, 6], const_mel 2 5 (3/4), ''c'')]"

definition zero_frame_batch :: "sample list" where
  "zero_frame_batch = [([5, 6], const_mel 1 2 (1/2), ''a''), ([7], const_mel 1 0 (1/2), ''b'')]"


section \<open>The mozilla\_cv manifest\<close>

text \<open>
  Text is a list of characters, one per code point below 256. \<open>str_strip\<close> is
  \<^verbatim>\<open>str.strip()\<close>: it removes the leading and the trailing whitespace of Python
  (tab, newline, vertical tab, form feed, carriage return, the separators 28 to 31, space,
  and the code points 133 and 160). \<open>str_split\<close> is \<^verbatim>\<open>str.split(sep)\<close> with a
  one-character separator: the empty string gives one empty field.
\<close>

definition is_space :: "char \<Rightarrow> bool" where
  "is_space c = (of_char c \<in> {9, 10, 11, 12, 13, 28, 29, 30, 31, 32, 133, 160 :: nat})"

definition str_strip :: "string \<Rightarrow> string" where
  "str_strip s = rev (dropWhile is_space (rev (dropWhile is_space s)))"

fun str_split :: "char \<Rightarrow> string \<Rightarrow> string list" where
  "str_split sep [] = [[]]"
| "str_split sep (c # cs) =
     (if c = sep then [] # str_split sep cs
      else (case str_split sep cs of
              [] \<Rightarrow> [[c]]
            | w # ws \<Rightarrow> (c # w) # ws))"

definition tab :: char where
  "tab = CHR 0x09"

text \<open>
  \<^verbatim>\<open>load_mozilla_cv\<close>, lines 18 to 22. \<open>open_lines\<close> is the file system: the lines of a
  file as iteration over it yields them, without their terminators (which \<open>strip\<close> would
  remove with the rest of the trailing whitespace), or the exception of \<^verbatim>\<open>open\<close>.
  An entry \<^verbatim>\<open>[path, text]\<close> is a pair. \<^verbatim>\<open>component[1]\<close> and
  \<^verbatim>\<open>component[2]\<close> raise IndexError on a row with fewer than three fields.
\<close>

definition mozilla_cv_entry :: "string list \<Rightarrow> py_error + (string \<times> string)" where
  "mozilla_cv_entry component =
     (if length component < 3 then Inl IndexError
      else Inr (''clips/'' @ component ! 1, component ! 2))"

definition load_mozilla_cv ::
  "(string \<Rightarrow> py_error + string list) \<Rightarrow> string \<Rightarrow> py_error + (string \<times> string) list" where
  "load_mozilla_cv open_lines filename =
     (case open_lines filename of
        Inl e \<Rightarrow> Inl e
      | Inr f \<Rightarrow>
          (let components = drop 1 (map (\<lambda>line. str_split tab (str_strip line)) f)
           in map_err mozilla_cv_entry components))"

section \<open>TextMelLoader\<close>

text \<open>
  A floating-point value of a waveform or of a mel: finite, infinite or NaN. Finite
  values are idealised as real numbers (no rounding, no overflow, no signed zero).
  \<open>fadd\<close>, \<open>fdiv\<close>, \<open>flt\<close>, \<open>fmin\<close> and \<open>fmax\<close> are \<^verbatim>\<open>+\<close>, division by a Python
  number, \<^verbatim>\<open><\<close> and torch's minimum and maximum: a division by zero gives an
  infinity or NaN without raising, every comparison with NaN is false, and NaN passes
  through the arithmetic, the minimum and the maximum.
\<close>

datatype fval = Fin real | PInf | NInf | NaN

fun fadd :: "fval \<Rightarrow> fval \<Rightarrow> fval" where
  "fadd NaN _ = NaN"
| "fadd _ NaN = NaN"
| "fadd (Fin x) (Fin y) = Fin (x + y)"
| "fadd PInf NInf = NaN"
| "fadd NInf PInf = NaN"
| "fadd PInf _ = PInf"
| "fadd _ PInf = PInf"
| "fadd NInf _ = NInf"
| "fadd _ NInf = NInf"

definition fdiv :: "fval \<Rightarrow> real \<Rightarrow> fval" where
  "fdiv v r =
     (case v of
        Fin x \<Rightarrow> (if r \<noteq> 0 then Fin (x / r)
                  else if 0 < x then PInf else if x < 0 then NInf else NaN)
      | PInf \<Rightarrow> (if r < 0 then NInf else PInf)
      | NInf \<Rightarrow> (if r < 0 then PInf else NInf)
      | NaN \<Rightarrow> NaN)"

fun flt :: "fval \<Rightarrow> fval \<Rightarrow> bool" where
  "flt NaN _ = False"
| "flt _ NaN = False"
| "flt (Fin x) (Fin y) = (x < y)"
| "flt NInf NInf = False"
| "flt NInf _ = True"
| "flt PInf _ = False"
| "flt (Fin x) PInf = True"
| "flt (Fin x) NInf = False"

definition fmin :: "fval \<Rightarrow> fval \<Rightarrow> fval" where
  "fmin a b = (if a = NaN \<or> b = NaN then NaN else if flt b a then b else a)"

definition fmax :: "fval \<Rightarrow> fval \<Rightarrow> fval" where
  "fmax a b = (if a = NaN \<or> b = NaN then NaN else if flt a b then b else a)"

text \<open>
  A waveform inside \<^verbatim>\<open>get_mel\<close>: a tensor of one dimension, or, after the
  \<^verbatim>\<open>squeeze()\<close> of line 82 has met a single sample, of no dimension. What
  \<^verbatim>\<open>get_mel\<close> returns is a tensor of two dimensions, except that with \<open>return_wavs\<close> a
  waveform of no dimension comes back with one dimension only: \<open>flat\<close> marks that tensor,
  whose \<open>size1\<close> entries are its first and last dimension.
\<close>

datatype audio = Audio1 "fval list" | Audio0 fval

definition audio_values :: "audio \<Rightarrow> fval list" where
  "audio_values a = (case a of Audio1 xs \<Rightarrow> xs | Audio0 v \<Rightarrow> [v])"

record 'a melspec = "'a tensor2" +
  flat :: bool

text \<open>
  What the file only calls: the file system, the audio decoders, the tokenizer, the STFT
  and Python's global random generator. They are the fields of an environment, each
  returning the exception it raises as \<open>Inl\<close>. \<open>'g\<close> is the state of the global random
  generator; \<^verbatim>\<open>random.seed\<close> replaces it, \<^verbatim>\<open>random.shuffle\<close> and
  \<^verbatim>\<open>random.randint\<close> read and advance it. \<open>interpolate_area xs a b\<close> is
  \<^verbatim>\<open>torch.nn.functional.interpolate\<close> in mode \<open>area\<close> with scale factor \<open>a / b\<close>, on
  a tensor of three dimensions whose last holds \<open>xs\<close>. The function that \<open>TacotronSTFT\<close>
  returns is \<^verbatim>\<open>mel_spectrogram\<close> followed by the \<^verbatim>\<open>squeeze\<close> of line 95; its
  argument is \<^verbatim>\<open>audio_norm\<close>, given as the audio of which it is the
  \<^verbatim>\<open>unsqueeze(0)\<close>.
\<close>

record 'g env =
  open_lines :: "string \<Rightarrow> py_error + string list"
  load_filepaths_and_text :: "string \<Rightarrow> py_error + (string \<times> string) list"
  os_path_dirname :: "string \<Rightarrow> string"
  os_path_join :: "string \<Rightarrow> string \<Rightarrow> string"
  TacotronSTFT ::
    "nat \<Rightarrow> nat \<Rightarrow> nat \<Rightarrow> nat \<Rightarrow> nat \<Rightarrow> real \<Rightarrow> real \<Rightarrow>
       py_error + (audio \<Rightarrow> py_error + fval melspec)"
  random_seed :: "int \<Rightarrow> 'g"
  random_shuffle :: "'g \<Rightarrow> (string \<times> string) list \<Rightarrow> (string \<times> string) list \<times> 'g"
  random_randint :: "'g \<Rightarrow> nat \<Rightarrow> nat \<Rightarrow> nat \<times> 'g"
  load_wav_to_torch :: "string \<Rightarrow> py_error + (fval list \<times> nat)"
  audio_from_file :: "string \<Rightarrow> py_error + (fval list \<times> nat)"
  interpolate_area :: "fval list \<Rightarrow> nat \<Rightarrow> nat \<Rightarrow> py_error + fval list"
  np_load :: "string \<Rightarrow> py_error + fval melspec"
  text_to_sequence :: "string \<Rightarrow> string list \<Rightarrow> py_error + int list"

text \<open>
  The configuration. A key read with \<^verbatim>\<open>opt_get\<close> is optional (\<open>None\<close> when it is
  absent or null); a key read as \<^verbatim>\<open>hparams[...]\<close> or as an attribute is required.
\<close>

record hparams =
  hp_path :: string
  hp_fetcher_mode :: "string option"
  hp_text_cleaners :: "string list"
  hp_max_wav_value :: real
  hp_sampling_rate :: nat
  hp_load_mel_from_disk :: bool
  hp_return_wavs :: "bool option"
  hp_input_sample_rate :: "nat option"
  hp_filter_length :: nat
  hp_hop_length :: nat
  hp_win_length :: nat
  hp_n_mel_channels :: nat
  hp_mel_fmin :: real
  hp_mel_fmax :: real
  hp_seed :: int
  hp_max_mel_length :: "nat option"
  hp_max_text_length :: "nat option"
  hp_needs_collate :: "bool option"

text \<open>The attributes of the dataset object; of \<^verbatim>\<open>self.stft\<close>, its
  \<^verbatim>\<open>mel_spectrogram\<close> and its \<^verbatim>\<open>n_mel_channels\<close>.\<close>

record TextMelLoader =
  path :: string
  audiopaths_and_text :: "(string \<times> string) list"
  text_cleaners :: "string list"
  max_wav_value :: real
  sampling_rate :: nat
  load_mel_from_disk :: bool
  return_wavs :: bool
  input_sample_rate :: nat
  stft_mel_spectrogram :: "audio \<Rightarrow> py_error + fval melspec"
  stft_n_mel_channels :: nat
  max_mel_len :: "nat option"
  max_text_len :: "nat option"
  needs_collate :: bool

definition opt_get :: "'a option \<Rightarrow> 'a \<Rightarrow> 'a" where
  "opt_get v dflt = (case v of None \<Rightarrow> dflt | Some x \<Rightarrow> x)"

text \<open>Lines 33 to 40: the manifest, fetched by the loader that \<open>fetcher_mode\<close> names.\<close>

definition fetch_manifest :: "'g env \<Rightarrow> hparams \<Rightarrow> py_error + (string \<times> string) list" where
  "fetch_manifest env hp =
     (let fetcher_mode = opt_get (hp_fetcher_mode hp) ''lj'' in
      if fetcher_mode = ''lj'' then load_filepaths_and_text env (hp_path hp)
      else if fetcher_mode = ''mozilla_cv'' then load_mozilla_cv (open_lines env) (hp_path hp)
      else Inl NotImplementedError)"

text \<open>
  \<^verbatim>\<open>TextMelLoader.__init__\<close>, lines 31 to 59, in the order of the source; the second
  component is the global random generator afterwards. The two \<^verbatim>\<open>assert\<close>
  statements raise AssertionError.
\<close>

definition TextMelLoader_init ::
  "'g env \<Rightarrow> 'g \<Rightarrow> hparams \<Rightarrow> (py_error + TextMelLoader) \<times> 'g" where
  "TextMelLoader_init env g hp =
     (case fetch_manifest env hp of
        Inl e \<Rightarrow> (Inl e, g)
      | Inr fetched \<Rightarrow>
     (let return_wavs' = opt_get (hp_return_wavs hp) False;
          input_sample_rate' = opt_get (hp_input_sample_rate hp) (hp_sampling_rate hp) in
      if hp_load_mel_from_disk hp \<and> return_wavs' then (Inl AssertionError, g)
      else
        (case TacotronSTFT env (hp_filter_length hp) (hp_hop_length hp) (hp_win_length hp)
                (hp_n_mel_channels hp) (hp_sampling_rate hp) (hp_mel_fmin hp) (hp_mel_fmax hp) of
           Inl e \<Rightarrow> (Inl e, g)
         | Inr mel_spectrogram \<Rightarrow>
        (case random_shuffle env (random_seed env (hp_seed hp)) fetched of
           (shuffled, g') \<Rightarrow>
        (let needs_collate' = opt_get (hp_needs_collate hp) True in
         if \<not> needs_collate' \<and> (hp_max_mel_length hp = None \<or> hp_max_text_length hp = None)
         then (Inl AssertionError, g')
         else
           (Inr \<lparr> path = os_path_dirname env (hp_path hp),
                  audiopaths_and_text = shuffled,
                  text_cleaners = hp_text_cleaners hp,
                  max_wav_value = hp_max_wav_value hp,
                  sampling_rate = hp_sampling_rate hp,
                  load_mel_from_disk = hp_load_mel_from_disk hp,
                  return_wavs = return_wavs',
                  input_sample_rate = input_sample_rate',
                  stft_mel_spectrogram = mel_spectrogram,
                  stft_n_mel_channels = hp_n_mel_channels hp,
                  max_mel_len = hp_max_mel_length hp,
                  max_text_len = hp_max_text_length hp,
                  needs_collate = needs_collate' \<rparr>, g'))))))"

subsection \<open>get\_mel\<close>

text \<open>What the file prints, in order: line 80, line 84 and line 114, with the values
  they format.\<close>

datatype log_msg =
    LowSampleRate string nat nat
  | AudioRange string fval fval
  | SampleException nat nat nat string

text \<open>
  Lines 71 to 76: the waveform and its native sample rate. A \<^verbatim>\<open>.wav\<close> file is divided
  by \<open>max_wav_value\<close>; the division does not raise when that is zero.
\<close>

definition endswith :: "string \<Rightarrow> string \<Rightarrow> bool" where
  "endswith s ending = (length ending \<le> length s \<and> drop (length s - length ending) s = ending)"

definition load_audio :: "'g env \<Rightarrow> TextMelLoader \<Rightarrow> string \<Rightarrow> py_error + (fval list \<times> nat)" where
  "load_audio env self filename =
     (if endswith filename ''.wav'' then
        (case load_wav_to_torch env filename of
           Inl e \<Rightarrow> Inl e
         | Inr (audio, rate) \<Rightarrow> Inr (map (\<lambda>x. fdiv x (max_wav_value self)) audio, rate))
      else audio_from_file env filename)"

text \<open>
  Lines 78 to 82: when the native rate differs from \<open>input_sample_rate\<close>, the waveform is
  resampled, squeezed, clipped to \<open>[-1, 1]\<close> and mapped by \<open>(x + 1) / 2\<close>. The scale factor
  \<^verbatim>\<open>self.input_sample_rate/sampling_rate\<close> divides by the native rate.
  \<^verbatim>\<open>clip\<close> passes NaN through. \<^verbatim>\<open>squeeze()\<close> removes every dimension of size
  one, so a resampled waveform of a single sample has no dimension left.
\<close>

definition clip :: "real \<Rightarrow> real \<Rightarrow> fval \<Rightarrow> fval" where
  "clip lo hi v =
     (case v of
        Fin x \<Rightarrow> Fin (min hi (max lo x))
      | PInf \<Rightarrow> Fin hi
      | NInf \<Rightarrow> Fin lo
      | NaN \<Rightarrow> NaN)"

definition squeeze :: "fval list \<Rightarrow> audio" where
  "squeeze xs = (case xs of [v] \<Rightarrow> Audio0 v | _ \<Rightarrow> Audio1 xs)"

definition resample_to_input_rate ::
  "'g env \<Rightarrow> TextMelLoader \<Rightarrow> string \<Rightarrow> fval list \<Rightarrow> nat \<Rightarrow> log_msg list \<Rightarrow>
     (py_error + audio) \<times> log_msg list" where
  "resample_to_input_rate env self filename audio rate out =
     (if rate \<noteq> input_sample_rate self then
        (let out' = (if rate < input_sample_rate self
                     then out @ [LowSampleRate filename rate (input_sample_rate self)]
                     else out)
         in if rate = 0 then (Inl ZeroDivisionError, out')
            else (case interpolate_area env audio (input_sample_rate self) rate of
                    Inl e \<Rightarrow> (Inl e, out')
                  | Inr resampled \<Rightarrow>
                      (Inr (squeeze (map (\<lambda>x. fdiv (fadd (clip (-1) 1 x) (Fin 1)) 2) resampled)),
                       out')))
      else (Inr (Audio1 audio), out))"

text \<open>
  Lines 86 to 90: \<^verbatim>\<open>audio_norm\<close> is the audio with one more dimension in front, and
  is kept as that audio. The second resampling, from \<open>input_sample_rate\<close> to
  \<open>sampling_rate\<close>, adds another dimension; \<^verbatim>\<open>interpolate\<close> takes a tensor of three
  dimensions and raises NotImplementedError for the two that an audio of no dimension
  has by then.
\<close>

definition resample_to_sampling_rate ::
  "'g env \<Rightarrow> TextMelLoader \<Rightarrow> audio \<Rightarrow> py_error + audio" where
  "resample_to_sampling_rate env self audio =
     (if input_sample_rate self \<noteq> sampling_rate self then
        (if input_sample_rate self = 0 then Inl ZeroDivisionError
         else (case audio of
                 Audio0 v \<Rightarrow> Inl NotImplementedError
               | Audio1 xs \<Rightarrow>
                   (case interpolate_area env xs (sampling_rate self) (input_sample_rate self) of
                      Inl e \<Rightarrow> Inl e
                    | Inr resampled \<Rightarrow> Inr (Audio1 resampled))))
      else Inr audio)"

text \<open>Lines 91 to 95: with \<open>return_wavs\<close> \<^verbatim>\<open>audio_norm\<close> itself is returned, a tensor
  of one row, or of one dimension when the audio had none.\<close>

definition wav_tensor :: "audio \<Rightarrow> fval melspec" where
  "wav_tensor audio_norm =
     (case audio_norm of
        Audio1 xs \<Rightarrow> \<lparr> size0 = 1, size1 = length xs, elem = (\<lambda>_ j. xs ! j), flat = False \<rparr>
      | Audio0 v \<Rightarrow> \<lparr> size0 = 1, size1 = 1, elem = (\<lambda>_ _. v), flat = True \<rparr>)"

definition produce_features ::
  "'g env \<Rightarrow> TextMelLoader \<Rightarrow> audio \<Rightarrow> py_error + fval melspec" where
  "produce_features env self audio =
     (case resample_to_sampling_rate env self audio of
        Inl e \<Rightarrow> Inl e
      | Inr audio_norm \<Rightarrow>
          if return_wavs self then Inr (wav_tensor audio_norm)
          else stft_mel_spectrogram self audio_norm)"

text \<open>\<^verbatim>\<open>audio.min()\<close> and \<^verbatim>\<open>audio.max()\<close> of a non-empty tensor: NaN as soon as
  one entry is NaN.\<close>

definition tensor_min :: "fval list \<Rightarrow> fval" where
  "tensor_min xs = fold fmin xs (hd xs)"

definition tensor_max :: "fval list \<Rightarrow> fval" where
  "tensor_max xs = fold fmax xs (hd xs)"

text \<open>\<^verbatim>\<open>melspec.size(0)\<close>.\<close>

definition dim0 :: "'a melspec \<Rightarrow> nat" where
  "dim0 m = (if flat m then size1 m else size0 m)"

text \<open>
  \<^verbatim>\<open>get_mel\<close>, lines 69 to 102. The result \<open>Inr None\<close> is the \<^verbatim>\<open>return None\<close> of
  line 85. The minimum of an empty tensor raises.
\<close>

definition get_mel ::
  "'g env \<Rightarrow> TextMelLoader \<Rightarrow> string \<Rightarrow> log_msg list \<Rightarrow>
     (py_error + fval melspec option) \<times> log_msg list" where
  "get_mel env self filename out =
     (if \<not> load_mel_from_disk self then
        (case load_audio env self filename of
           Inl e \<Rightarrow> (Inl e, out)
         | Inr (audio0, rate) \<Rightarrow>
        (case resample_to_input_rate env self filename audio0 rate out of
           (Inl e, out') \<Rightarrow> (Inl e, out')
         | (Inr audio, out') \<Rightarrow>
             if audio_values audio = [] then (Inl RuntimeError, out')
             else if flt (tensor_min (audio_values audio)) (Fin (-1)) \<or>
                     flt (Fin 1) (tensor_max (audio_values audio)) then
               (Inr None,
                out' @ [AudioRange filename (tensor_min (audio_values audio))
                          (tensor_max (audio_values audio))])
             else (case produce_features env self audio of
                     Inl e \<Rightarrow> (Inl e, out')
                   | Inr melspec \<Rightarrow> (Inr (Some melspec), out'))))
      else
        (case np_load env filename of
           Inl e \<Rightarrow> (Inl e, out)
         | Inr melspec \<Rightarrow>
             if dim0 melspec = stft_n_mel_channels self then (Inr (Some melspec), out)
             else (Inl AssertionError, out)))"

text \<open>
  The waveform after both resamplings, whatever its range: the first resampling of
  \<open>resample_to_input_rate\<close> followed by the second of \<open>resample_to_sampling_rate\<close>.
\<close>

definition waveform_after_resampling ::
  "'g env \<Rightarrow> TextMelLoader \<Rightarrow> string \<Rightarrow> py_error + audio" where
  "waveform_after_resampling env self filename =
     (case load_audio env self filename of
        Inl e \<Rightarrow> Inl e
      | Inr (audio0, rate) \<Rightarrow>
          (case fst (resample_to_input_rate env self filename audio0 rate []) of
             Inl e \<Rightarrow> Inl e
           | Inr audio \<Rightarrow> resample_to_sampling_rate env self audio))"

text \<open>Lines 61 to 67 and 104 to 106.\<close>

definition get_mel_text_pair ::
  "'g env \<Rightarrow> TextMelLoader \<Rightarrow> string \<times> string \<Rightarrow> log_msg list \<Rightarrow>
     (py_error + (int list \<times> fval melspec option \<times> string)) \<times> log_msg list" where
  "get_mel_text_pair env self audiopath_and_text out =
     (let audiopath = os_path_join env (path self) (fst audiopath_and_text) in
      case text_to_sequence env (snd audiopath_and_text) (text_cleaners self) of
        Inl e \<Rightarrow> (Inl e, out)
      | Inr text \<Rightarrow>
          (case get_mel env self audiopath out of
             (Inl e, out') \<Rightarrow> (Inl e, out')
           | (Inr mel, out') \<Rightarrow> (Inr (text, mel, fst audiopath_and_text), out')))"

subsection \<open>\_\_getitem\_\_\<close>

text \<open>
  What \<^verbatim>\<open>__getitem__\<close> returns: the tuple \<^verbatim>\<open>(t, m, p)\<close>, or with
  \<open>needs_collate\<close> off a dictionary, kept as the list of its keys and values in the order
  of the source.
\<close>

datatype py_value =
    IntTensor "int list"
  | LongScalar nat
  | FloatTensor "fval melspec"
  | Str string

datatype item =
    Tuple "int list" "fval melspec" string
  | Dict "(string \<times> py_value) list"

text \<open>The test of lines 110 to 112.\<close>

definition invalid_sample :: "TextMelLoader \<Rightarrow> int list \<Rightarrow> fval melspec option \<Rightarrow> bool" where
  "invalid_sample self t m =
     (case m of
        None \<Rightarrow> True
      | Some mel \<Rightarrow>
          (case max_mel_len self of None \<Rightarrow> False | Some cap \<Rightarrow> cap < size1 mel) \<or>
          (case max_text_len self of None \<Rightarrow> False | Some cap \<Rightarrow> cap < length t))"

text \<open>\<^verbatim>\<open>F.pad(m, (0, k))\<close>: \<open>k\<close> zeros to the right of the last dimension.\<close>

definition pad_last :: "fval melspec \<Rightarrow> nat \<Rightarrow> fval melspec" where
  "pad_last m k =
     m\<lparr> size1 := size1 m + k,
        elem := (\<lambda>c j. if j < size1 m then elem m c j else Fin 0) \<rparr>"

text \<open>
  Lines 118 to 132, for a sample that passed the test. With \<open>needs_collate\<close> off, a
  length that is \<open>None\<close> cannot be subtracted from.
\<close>

definition finish_item ::
  "TextMelLoader \<Rightarrow> int list \<Rightarrow> fval melspec \<Rightarrow> string \<Rightarrow> py_error + item" where
  "finish_item self t m p =
     (let orig_output = size1 m; orig_text_len = length t in
      if \<not> needs_collate self then
        (case (max_mel_len self, max_text_len self) of
           (Some mel_cap, Some text_cap) \<Rightarrow>
             (let m' = (if size1 m \<noteq> mel_cap then pad_last m (mel_cap - size1 m) else m);
                  t' = (if length t \<noteq> text_cap then t @ replicate (text_cap - length t) 0 else t)
              in Inr (Dict [(''padded_text'', IntTensor t'),
                            (''input_lengths'', LongScalar orig_text_len),
                            (''padded_mel'', FloatTensor m'),
                            (''output_lengths'', LongScalar orig_output),
                            (''filenames'', Str p)]))
         | _ \<Rightarrow> Inl TypeError)
      else Inr (Tuple t m p))"

text \<open>
  \<^verbatim>\<open>TextMelLoader.__getitem__\<close>, lines 108 to 132. The state is the global random
  generator and what has been printed. The first argument is the number of nested calls
  of \<^verbatim>\<open>__getitem__\<close> that the interpreter's recursion limit still allows: the
  call \<^verbatim>\<open>self[rv]\<close> of line 117 is one level deeper, and at the limit Python raises
  RecursionError. The index is a \<open>nat\<close>; past the end of the list it raises IndexError.
\<close>

fun getitem ::
  "'g env \<Rightarrow> TextMelLoader \<Rightarrow> nat \<Rightarrow> nat \<Rightarrow> 'g \<times> log_msg list \<Rightarrow>
     (py_error + item) \<times> 'g \<times> log_msg list" where
  "getitem env self 0 index (g, out) = (Inl RecursionError, g, out)"
| "getitem env self (Suc depth) index (g, out) =
     (if length (audiopaths_and_text self) \<le> index then (Inl IndexError, g, out)
      else
        (case get_mel_text_pair env self (audiopaths_and_text self ! index) out of
           (Inl e, out') \<Rightarrow> (Inl e, g, out')
         | (Inr (t, m, p), out') \<Rightarrow>
             if invalid_sample self t m then
               (let out'' = (case m of
                               None \<Rightarrow> out'
                             | Some mel \<Rightarrow> out' @ [SampleException index (size1 mel) (length t) p])
                in case random_randint env g 0 (length (audiopaths_and_text self) - 1) of
                     (rv, g') \<Rightarrow> getitem env self depth rv (g', out''))
             else (case m of
                     None \<Rightarrow> (Inl AttributeError, g, out')
                   | Some mel \<Rightarrow> (finish_item self t mel p, g, out'))))"

section \<open>Concrete inputs\<close>

text \<open>A manifest of a header and two rows, the second with trailing fields. Then a
  manifest whose first row has an empty first field and whose second row's transcript
  ends in a space.\<close>

definition demo_manifest :: "string \<Rightarrow> py_error + string list" where
  "demo_manifest name =
     (if name = ''train.tsv''
      then Inr [''client_id'' @ [tab] @ ''path'' @ [tab] @ ''sentence'',
                ''7'' @ [tab] @ ''x.mp3'' @ [tab] @ ''hello'',
                ''8'' @ [tab] @ ''y.mp3'' @ [tab] @ ''bye'' @ [tab] @ ''2'' @ [tab]]
      else Inl IOError)"

definition shifted_manifest :: "string \<Rightarrow> py_error + string list" where
  "shifted_manifest name =
     (if name = ''train.tsv''
      then Inr [''client_id'' @ [tab] @ ''path'' @ [tab] @ ''sentence'' @ [tab] @ ''age'',
                [tab] @ ''x.mp3'' @ [tab] @ ''hello'' @ [tab] @ ''30'',
                ''8'' @ [tab] @ ''y.mp3'' @ [tab] @ ''bye '']
      else Inl IOError)"

text \<open>
  An instance of the environment on which the loader is run. \<open>area_interpolate\<close> follows
  the library's area mode: the output has \<open>length * a div b\<close> samples, and sample \<open>i\<close> of
  \<open>n\<close> is the mean of the input from \<open>i * length div n\<close> up to \<open>(i + 1) * length / n\<close>
  rounded up; an empty input or output raises. The random generator is a counter,
  \<^verbatim>\<open>randint\<close> returning the counter reduced into the range. Three audio files at
  rate 2, one at rate 1 and one at rate 4, a \<^verbatim>\<open>.wav\<close> file of two zero samples at
  rate 1 and one of the samples 1 and -1 at rate 2; the STFT returns one frame per sample
  of the waveform.
\<close>

definition area_interpolate :: "fval list \<Rightarrow> nat \<Rightarrow> nat \<Rightarrow> py_error + fval list" where
  "area_interpolate xs a b =
     (let n = (length xs * a) div b in
      if xs = [] \<or> n = 0 then Inl RuntimeError
      else Inr (map (\<lambda>i. let s = (i * length xs) div n;
                              e = ((i + 1) * length xs + n - 1) div n
                          in fdiv (foldr fadd (take (e - s) (drop s xs)) (Fin 0)) (real (e - s)))
                    [0..<n]))"

definition demo_audio :: "string \<Rightarrow> py_error + (fval list \<times> nat)" where
  "demo_audio name =
     (if name = ''loud.mp3'' then Inr ([Fin 2, Fin (-2)], 2)
      else if name = ''ok.mp3'' then Inr ([Fin (1/2), Fin (-1/2), Fin (1/4), Fin 0], 2)
      else if name = ''long.mp3''
        then Inr ([Fin (1/2), Fin (1/2), Fin (1/2), Fin (1/2),
                   Fin (1/2), Fin (1/2), Fin (1/2), Fin (1/2)], 2)
      else if name = ''slow.mp3'' then Inr ([Fin 3, Fin (-3)], 1)
      else if name = ''fast.mp3'' then Inr ([Fin 3, Fin (-3)], 4)
      else Inl IOError)"

definition const_spec :: "nat \<Rightarrow> nat \<Rightarrow> fval \<Rightarrow> fval melspec" where
  "const_spec c f v = \<lparr> size0 = c, size1 = f, elem = (\<lambda>_ _. v), flat = False \<rparr>"

definition demo_stft :: "nat \<Rightarrow> audio \<Rightarrow> py_error + fval melspec" where
  "demo_stft n audio_norm =
     (case audio_norm of
        Audio1 xs \<Rightarrow> Inr (const_spec n (length xs) (Fin 0))
      | Audio0 v \<Rightarrow> Inl IndexError)"

definition demo_env :: "nat env" where
  "demo_env =
     \<lparr> open_lines = demo_manifest,
       load_filepaths_and_text = (\<lambda>_. Inr [(''long.mp3'', ''hi''), (''ok.mp3'', ''hi'')]),
       os_path_dirname = (\<lambda>_. []),
       os_path_join = (\<lambda>_ name. name),
       TacotronSTFT = (\<lambda>_ _ _ n _ _ _. Inr (demo_stft n)),
       random_seed = (\<lambda>s. nat (abs s)),
       random_shuffle = (\<lambda>g xs. (rev xs, Suc g)),
       random_randint = (\<lambda>g lo hi. (lo + g mod (hi - lo + 1), Suc g)),
       load_wav_to_torch =
         (\<lambda>name. if name = ''silent.wav'' then Inr ([Fin 0, Fin 0], 1)
                 else if name = ''click.wav'' then Inr ([Fin 1, Fin (-1)], 2)
                 else Inl IOError),
       audio_from_file = demo_audio,
       interpolate_area = area_interpolate,
       np_load = (\<lambda>_. Inl IOError),
       text_to_sequence = (\<lambda>s _. Inr (map (\<lambda>c. int (of_char c)) s)) \<rparr>"

definition demo_hparams :: hparams where
  "demo_hparams =
     \<lparr> hp_path = ''train.tsv'', hp_fetcher_mode = Some ''mozilla_cv'', hp_text_cleaners = [],
       hp_max_wav_value = 32768, hp_sampling_rate = 1, hp_load_mel_from_disk = False,
       hp_return_wavs = None, hp_input_sample_rate = Some 2, hp_filter_length = 4,
       hp_hop_length = 1, hp_win_length = 4, hp_n_mel_channels = 2, hp_mel_fmin = 0,
       hp_mel_fmax = 1, hp_seed = 7, hp_max_mel_length = Some 3, hp_max_text_length = Some 5,
       hp_needs_collate = Some False \<rparr>"

definition demo_loader :: TextMelLoader where
  "demo_loader =
     \<lparr> path = [],
       audiopaths_and_text = [(''long.mp3'', ''hi''), (''ok.mp3'', ''hi'')],
       text_cleaners = [], max_wav_value = 32768, sampling_rate = 1,
       load_mel_from_disk = False, return_wavs = False, input_sample_rate = 2,
       stft_mel_spectrogram = demo_stft 2,
       stft_n_mel_channels = 2, max_mel_len = Some 3, max_text_len = Some 5,
       needs_collate = True \<rparr>"

text \<open>The same environment with a generator that always draws the lowest index, the
  dataset with \<open>needs_collate\<close> off, the dataset with \<open>max_wav_value\<close> zero, and a dataset
  whose only entry names a file that does not exist.\<close>

definition stuck_env :: "nat env" where
  "stuck_env = demo_env\<lparr> random_randint := (\<lambda>g lo hi. (lo, g)) \<rparr>"

definition fixed_loader :: TextMelLoader where
  "fixed_loader = demo_loader\<lparr> needs_collate := False \<rparr>"

definition zero_scale_loader :: TextMelLoader where
  "zero_scale_loader = demo_loader\<lparr> max_wav_value := 0 \<rparr>"

definition broken_loader :: TextMelLoader where
  "broken_loader = demo_loader\<lparr> audiopaths_and_text := [(''gone.mp3'', ''hi'')] \<rparr>"

section \<open>The collator\<close>

lemma map_err_Inr_iff:
  "map_err f xs = Inr ys \<longleftrightarrow> length ys = length xs \<and> (\<forall>i<length xs. f (xs ! i) = Inr (ys ! i))"
proof (induction xs arbitrary: ys)
  case Nil
  then show ?case by auto
next
  case (Cons x xs)
  show ?case
  proof (cases ys)
    case Nil
    then show ?thesis by (auto split: sum.splits)
  next
    case (Cons y ys')
    then show ?thesis using Cons.IH[of ys']
      by (auto simp: All_less_Suc2 split: sum.splits)
  qed
qed

lemma map_err_map:
  "(\<forall>x\<in>set xs. f x = Inr (g x)) \<Longrightarrow> map_err f xs = Inr (map g xs)"
  by (induction xs) auto

lemma max_frames_ge: "x \<in> set batch \<Longrightarrow> size1 (s_mel x) \<le> max_frames batch"
proof -
  have "\<And>a. y \<in> set ys \<Longrightarrow> y \<le> fold max ys (a::nat)" for y ys
  proof (induction ys)
    case Nil then show ?case by simp
  next
    case (Cons z zs)
    have "a \<le> fold max zs a" for a :: nat by (induction zs arbitrary: a) (auto intro: order_trans[OF max.cobounded2])
    with Cons show ?case by (auto intro: order_trans[OF max.cobounded1])
  qed
  then show "x \<in> set batch \<Longrightarrow> size1 (s_mel x) \<le> max_frames batch"
    unfolding max_frames_def by force
qed

lemma round_up_multiple:
  assumes "0 < (n::nat)" and "x mod n \<noteq> 0"
  shows "(x + (n - x mod n)) mod n = 0" and "x \<le> x + (n - x mod n)" and "x + (n - x mod n) < x + n"
proof -
  have lt: "x mod n < n" using assms(1) by simp
  have "x + (n - x mod n) = (x div n) * n + n"
    using lt div_mult_mod_eq[of x n] by arith
  then show "(x + (n - x mod n)) mod n = 0" by simp
  show "x \<le> x + (n - x mod n)" by simp
  show "x + (n - x mod n) < x + n" using assms(2) lt by arith
qed

lemma round_target_len_ok:
  assumes "0 < n"
  shows "\<exists>m. round_target_len n x = Inr m \<and> n dvd m \<and> x \<le> m \<and> m < x + n"
proof (cases "x mod n = 0")
  case True
  with assms show ?thesis by (auto simp: round_target_len_def)
next
  case False
  note r = round_up_multiple[OF assms False]
  have "round_target_len n x = Inr (x + (n - x mod n))"
    using assms False r(1) by (simp add: round_target_len_def Let_def)
  moreover have "n dvd x + (n - x mod n)" using r(1) by (simp only: mod_eq_0_iff_dvd)
  ultimately show ?thesis using r(2,3) by blast
qed


lemma sort_ok_facts:
  assumes ok: "torch_sort_ok srt xs" and sr: "srt xs = (vals, ids)"
  shows "set ids = {0..<length xs}" and "length ids = length xs" and "vals = map ((!) xs) ids"
    and "sorted_wrt (\<ge>) vals" and "mset ids = mset [0..<length xs]"
proof -
  from ok sr have m: "mset ids = mset [0..<length xs]" and v: "vals = map ((!) xs) ids"
    and s: "sorted_wrt (\<ge>) vals"
    by (auto simp: torch_sort_ok_def)
  from m show "mset ids = mset [0..<length xs]" .
  from mset_eq_setD[OF m] show "set ids = {0..<length xs}" by simp
  from mset_eq_length[OF m] show "length ids = length xs" by simp
  from v show "vals = map ((!) xs) ids" .
  from s show "sorted_wrt (\<ge>) vals" .
qed

lemma sorted_desc_hd_ge:
  "sorted_wrt (\<ge>) (vs :: nat list) \<Longrightarrow> v \<in> set vs \<Longrightarrow> v \<le> hd vs"
  by (cases vs) auto

lemma case_list_hd: "xs \<noteq> [] \<Longrightarrow> (case xs of [] \<Rightarrow> a | x # _ \<Rightarrow> f x) = f (hd xs)"
  by (cases xs) auto

lemma collate_result:
  assumes ok: "torch_sort_ok srt (map (\<lambda>x. length (s_text x)) batch)"
    and sr: "srt (map (\<lambda>x. length (s_text x)) batch) = (vals, ids)"
    and ne: "batch \<noteq> []" and n: "0 < n"
    and ch: "\<forall>x\<in>set batch. size0 (s_mel x) = size0 (s_mel (hd batch))"
    and rt: "round_target_len n (max_frames batch) = Inr mtl"
  shows "TextMelCollate_call srt n batch = Inr
     \<lparr> padded_text = map (\<lambda>k. s_text (batch ! k) @ replicate (hd vals - length (s_text (batch ! k))) 0) ids,
       input_lengths = vals,
       padded_mel = map (\<lambda>k. pad_mel (size0 (s_mel (hd batch))) mtl (s_mel (batch ! k))) ids,
       padded_gate = map (\<lambda>k. gate_row mtl (size1 (s_mel (batch ! k)))) ids,
       output_lengths = map (\<lambda>k. size1 (s_mel (batch ! k))) ids,
       filenames = map (\<lambda>k. s_name (batch ! k)) ids \<rparr>"
proof -
  let ?xs = "map (\<lambda>x. length (s_text x)) batch"
  note f = sort_ok_facts[OF ok sr]
  have idsb: "k < length batch" if "k \<in> set ids" for k using that f(1) by simp
  have idsne: "ids \<noteq> []" using f(2) ne by auto
  then have valsne: "vals \<noteq> []" using f(3) by simp
  then obtain v0 vs where vals: "vals = v0 # vs" by (cases vals) auto
  have le: "length (s_text (batch ! k)) \<le> hd vals" if "k \<in> set ids" for k
  proof -
    have "?xs ! k \<in> set vals" using that f(3) by auto
    from sorted_desc_hd_ge[OF f(4) this] idsb[OF that] show ?thesis by simp
  qed
  have t: "map_err (text_step batch v0) ids =
      Inr (map (\<lambda>k. (s_text (batch ! k) @ replicate (v0 - length (s_text (batch ! k))) 0, s_name (batch ! k))) ids)"
  proof (rule map_err_map, rule ballI)
    fix k assume k: "k \<in> set ids"
    from idsb[OF k] le[OF k] vals
    show "text_step batch v0 k =
      Inr (s_text (batch ! k) @ replicate (v0 - length (s_text (batch ! k))) 0, s_name (batch ! k))"
      by (simp add: text_step_def Let_def)
  qed
  define first where "first = hd batch"
  have b: "x \<in> set batch \<Longrightarrow> size0 (s_mel x) = size0 (s_mel first)" for x
    using ch by (simp add: first_def)
  from round_target_len_ok[OF n, of "max_frames batch"] rt
  have mtl: "max_frames batch \<le> mtl" by auto
  have m: "map_err (mel_step batch (size0 (s_mel first)) mtl) ids =
      Inr (map (\<lambda>k. (pad_mel (size0 (s_mel first)) mtl (s_mel (batch ! k)),
                      gate_row mtl (size1 (s_mel (batch ! k))), size1 (s_mel (batch ! k)))) ids)"
  proof (rule map_err_map, rule ballI)
    fix k assume k: "k \<in> set ids"
    then have kb: "k < length batch" by (rule idsb)
    then have mem: "batch ! k \<in> set batch" by simp
    from max_frames_ge[OF mem] mtl have "size1 (s_mel (batch ! k)) \<le> mtl" by simp
    moreover from b[OF mem] have "size0 (s_mel (batch ! k)) = size0 (s_mel first)" .
    ultimately show "mel_step batch (size0 (s_mel first)) mtl k =
      Inr (pad_mel (size0 (s_mel first)) mtl (s_mel (batch ! k)),
           gate_row mtl (size1 (s_mel (batch ! k))), size1 (s_mel (batch ! k)))"
      using kb by (simp add: mel_step_def mel_rows_def Let_def)
  qed
  show ?thesis
    unfolding TextMelCollate_call_def
    using t m
    by (simp add: sr vals case_list_hd[OF ne] first_def rt Let_def o_def)
qed


lemma mset_insert_desc: "mset (insert_desc p qs) = add_mset p (mset qs)"
  by (induction qs) auto

lemma set_insert_desc: "set (insert_desc p qs) = insert p (set qs)"
  by (induction qs) auto

lemma sorted_insert_desc:
  "sorted_wrt (\<lambda>a b. fst b \<le> fst a) qs \<Longrightarrow> sorted_wrt (\<lambda>a b. fst b \<le> fst a) (insert_desc p qs)"
  by (induction qs) (auto simp: set_insert_desc)

lemma foldr_insert_desc:
  "mset (foldr insert_desc ps []) = mset ps \<and> sorted_wrt (\<lambda>a b. fst b \<le> fst a) (foldr insert_desc ps [])"
  by (induction ps) (auto simp: mset_insert_desc sorted_insert_desc)

lemma sort_descending_ok: "torch_sort_ok sort_descending xs"
proof -
  define ps where "ps = foldr insert_desc (zip xs [0..<length xs]) []"
  have m: "mset ps = mset (zip xs [0..<length xs])"
    and s: "sorted_wrt (\<lambda>a b. fst b \<le> fst a) ps"
    using foldr_insert_desc[of "zip xs [0..<length xs]"] by (simp_all add: ps_def)
  have "mset (map snd ps) = mset (map snd (zip xs [0..<length xs]))"
    using m by (metis mset_map)
  then have 1: "mset (map snd ps) = mset [0..<length xs]" by simp
  have "p \<in> set ps \<Longrightarrow> fst p = xs ! snd p" for p
  proof -
    assume "p \<in> set ps"
    then have "p \<in> set (zip xs [0..<length xs])" using mset_eq_setD[OF m] by simp
    then show "fst p = xs ! snd p" by (auto simp: in_set_zip)
  qed
  then have 2: "map fst ps = map ((!) xs) (map snd ps)" by simp
  have 3: "sorted_wrt (\<ge>) (map fst ps)" using s by (simp add: sorted_wrt_map)
  show ?thesis
    unfolding torch_sort_ok_def sort_descending_def Let_def ps_def[symmetric]
    using 1 2 3 by simp
qed

lemmas collate_eval = TextMelCollate_call_def sort_descending_def const_mel_def text_step_def s_text_def s_mel_def s_name_def
     round_target_len_def max_frames_def mel_step_def mel_rows_def pad_mel_def gate_row_def gate_start_def upt_rec Let_def


lemma gate_row_nth:
  "j < mtl \<Longrightarrow> gate_row mtl f ! j = (if gate_start mtl f \<le> j then 1 else 0)"
  by (simp add: gate_row_def)

lemma length_gate_row: "length (gate_row mtl f) = mtl"
  by (simp add: gate_row_def)

lemma pad_mel_nth:
  "c < num_mels \<Longrightarrow> j < mtl \<Longrightarrow>
     pad_mel num_mels mtl mel ! c ! j = (if j < size1 mel then elem mel c j else 0)"
  by (simp add: pad_mel_def)

lemma length_pad_mel: "length (pad_mel num_mels mtl mel) = num_mels"
  and length_pad_mel_row: "c < num_mels \<Longrightarrow> length (pad_mel num_mels mtl mel ! c) = mtl"
  by (simp_all add: pad_mel_def)

lemma mel_rows_Inr:
  assumes "mel_rows num_mels mtl mel = Inr rows"
  shows "size1 mel \<le> mtl" and "length rows = num_mels"
    and "c < num_mels \<Longrightarrow> length (rows ! c) = mtl"
    and "c < num_mels \<Longrightarrow> j < mtl \<Longrightarrow> size1 mel \<le> j \<Longrightarrow> rows ! c ! j = 0"
  using assms
  by (auto simp: mel_rows_def pad_mel_def split: if_splits)

lemma mel_rows_entries:
  assumes "mel_rows num_mels mtl mel = Inr rows" and "c < num_mels" and "j < mtl"
  shows "rows ! c ! j =
           (if j < size1 mel then elem mel (if size0 mel = num_mels then c else 0) j else 0)"
  using assms
  by (auto simp: mel_rows_def pad_mel_def split: if_splits)

lemma collate_Inr:
  assumes ret: "TextMelCollate_call srt n batch = Inr b"
    and sr: "srt (map (\<lambda>x. length (s_text x)) batch) = (vals, ids)"
  shows "\<exists>mtl. batch \<noteq> [] \<and> vals \<noteq> [] \<and> 0 < n \<and>
           round_target_len n (max_frames batch) = Inr mtl \<and>
           input_lengths b = vals \<and>
           length (padded_text b) = length ids \<and> length (filenames b) = length ids \<and>
           length (padded_mel b) = length ids \<and> length (padded_gate b) = length ids \<and>
           length (output_lengths b) = length ids \<and>
           (\<forall>i<length ids. ids ! i < length batch \<and>
              length (s_text (batch ! (ids ! i))) \<le> hd vals \<and>
              padded_text b ! i =
                s_text (batch ! (ids ! i)) @
                replicate (hd vals - length (s_text (batch ! (ids ! i)))) 0 \<and>
              filenames b ! i = s_name (batch ! (ids ! i)) \<and>
              mel_rows (size0 (s_mel (hd batch))) mtl (s_mel (batch ! (ids ! i))) =
                Inr (padded_mel b ! i) \<and>
              padded_gate b ! i = gate_row mtl (size1 (s_mel (batch ! (ids ! i)))) \<and>
              output_lengths b ! i = size1 (s_mel (batch ! (ids ! i))))"
proof -
  from ret sr obtain v0 vs where vals: "vals = v0 # vs"
    by (cases vals) (auto simp: TextMelCollate_call_def)
  from ret sr vals obtain texts where t: "map_err (text_step batch v0) ids = Inr texts"
    by (cases "map_err (text_step batch v0) ids") (auto simp: TextMelCollate_call_def)
  from ret sr vals t obtain first rest where bt: "batch = first # rest"
    by (cases batch) (auto simp: TextMelCollate_call_def)
  have hb: "hd batch = first" using bt by simp
  have ne: "batch \<noteq> []" using bt by simp
  from ret sr vals t obtain mtl where rt: "round_target_len n (max_frames batch) = Inr mtl"
    by (cases "round_target_len n (max_frames batch)")
       (auto simp: TextMelCollate_call_def case_list_hd[OF ne] Let_def)
  from ret sr vals t rt obtain mels
    where m: "map_err (mel_step batch (size0 (s_mel (hd batch))) mtl) ids = Inr mels"
    by (cases "map_err (mel_step batch (size0 (s_mel (hd batch))) mtl) ids")
       (auto simp: TextMelCollate_call_def case_list_hd[OF ne] Let_def)
  from ret sr vals t rt m have b: "b = \<lparr> padded_text = map fst texts,
               input_lengths = vals,
               padded_mel = map fst mels,
               padded_gate = map (\<lambda>m. fst (snd m)) mels,
               output_lengths = map (\<lambda>m. snd (snd m)) mels,
               filenames = map snd texts \<rparr>"
    by (auto simp: TextMelCollate_call_def case_list_hd[OF ne] Let_def)
  from t have lt: "length texts = length ids"
    and pt: "\<And>i. i < length ids \<Longrightarrow> text_step batch v0 (ids ! i) = Inr (texts ! i)"
    by (simp_all add: map_err_Inr_iff)
  from m have lm: "length mels = length ids"
    and pm: "\<And>i. i < length ids \<Longrightarrow>
               mel_step batch (size0 (s_mel (hd batch))) mtl (ids ! i) = Inr (mels ! i)"
    by (simp_all add: map_err_Inr_iff)
  have n0: "0 < n" using rt by (auto simp: round_target_len_def split: if_splits)
  have rows: "ids ! i < length batch \<and>
              length (s_text (batch ! (ids ! i))) \<le> hd vals \<and>
              padded_text b ! i =
                s_text (batch ! (ids ! i)) @
                replicate (hd vals - length (s_text (batch ! (ids ! i)))) 0 \<and>
              filenames b ! i = s_name (batch ! (ids ! i)) \<and>
              mel_rows (size0 (s_mel (hd batch))) mtl (s_mel (batch ! (ids ! i))) =
                Inr (padded_mel b ! i) \<and>
              padded_gate b ! i = gate_row mtl (size1 (s_mel (batch ! (ids ! i)))) \<and>
              output_lengths b ! i = size1 (s_mel (batch ! (ids ! i)))"
    if i: "i < length ids" for i
  proof -
    from pt[OF i] have 1: "ids ! i < length batch"
      and 2: "length (s_text (batch ! (ids ! i))) \<le> v0"
      and 3: "texts ! i = (s_text (batch ! (ids ! i)) @
                replicate (v0 - length (s_text (batch ! (ids ! i)))) 0, s_name (batch ! (ids ! i)))"
      by (auto simp: text_step_def Let_def split: if_splits)
    from pm[OF i] 1 obtain rws where
      4: "mel_rows (size0 (s_mel (hd batch))) mtl (s_mel (batch ! (ids ! i))) = Inr rws"
      and 5: "mels ! i = (rws, gate_row mtl (size1 (s_mel (batch ! (ids ! i)))),
                          size1 (s_mel (batch ! (ids ! i))))"
      by (auto simp: mel_step_def Let_def split: if_splits sum.splits)
    show ?thesis using 1 2 3 4 5 i lt lm by (simp add: b vals)
  qed
  show ?thesis
    apply (rule exI[of _ mtl])
    using ne vals n0 rt lt lm rows by (simp add: b)
qed

lemma collate_returns:
  assumes ok: "torch_sort_ok srt (map (\<lambda>x. length (s_text x)) batch)"
    and ne: "batch \<noteq> []" and n: "0 < n"
    and ch: "\<forall>x\<in>set batch. size0 (s_mel x) = size0 (s_mel (hd batch))"
  shows "\<exists>b. TextMelCollate_call srt n batch = Inr b"
proof -
  obtain vals ids where sr: "srt (map (\<lambda>x. length (s_text x)) batch) = (vals, ids)"
    by (cases "srt (map (\<lambda>x. length (s_text x)) batch)") auto
  from round_target_len_ok[OF n, of "max_frames batch"] obtain mtl
    where rt: "round_target_len n (max_frames batch) = Inr mtl" by blast
  from collate_result[OF ok sr ne n ch rt] show ?thesis by blast
qed

lemma demo_batch_result:
  "TextMelCollate_call sort_descending 4 demo_batch =
     Inr \<lparr> padded_text = [[4, 5, 6], [1, 2, 0], [3, 0, 0]],
           input_lengths = [3, 2, 1],
           padded_mel =
             [[[3/4, 3/4, 3/4, 3/4, 3/4, 0, 0, 0], [3/4, 3/4, 3/4, 3/4, 3/4, 0, 0, 0]],
              [[1/2, 1/2, 1/2, 0, 0, 0, 0, 0], [1/2, 1/2, 1/2, 0, 0, 0, 0, 0]],
              [[1/4, 0, 0, 0, 0, 0, 0, 0], [1/4, 0, 0, 0, 0, 0, 0, 0]]],
           padded_gate =
             [[0, 0, 0, 0, 1, 1, 1, 1], [0, 0, 1, 1, 1, 1, 1, 1], [1, 1, 1, 1, 1, 1, 1, 1]],
           output_lengths = [5, 3, 1],
           filenames = [''c'', ''a'', ''b''] \<rparr>"
  by (simp add: demo_batch_def collate_eval)

lemma zero_frame_batch_result:
  "TextMelCollate_call sort_descending 2 zero_frame_batch =
     Inr \<lparr> padded_text = [[5, 6], [7, 0]], input_lengths = [2, 1],
           padded_mel = [[[1/2, 1/2]], [[0, 0]]],
           padded_gate = [[0, 1], [0, 1]],
           output_lengths = [2, 0], filenames = [''a'', ''b''] \<rparr>"
  by (simp add: zero_frame_batch_def collate_eval)

lemma py_slice_start_gate:
  "f \<le> mtl \<Longrightarrow> py_slice_start mtl (int f - 1) = gate_start mtl f"
  by (cases "f = 0") (auto simp: py_slice_start_def gate_start_def)

lemma gate_row_split:
  assumes "f \<le> mtl"
  shows "gate_row mtl f =
           replicate (gate_start mtl f) 0 @ replicate (mtl - gate_start mtl f) 1"
proof -
  have s: "gate_start mtl f \<le> mtl" using assms by (auto simp: gate_start_def)
  show ?thesis
    by (rule nth_equalityI) (use s in \<open>auto simp: gate_row_def nth_append\<close>)
qed

lemma gate_row_slices:
  assumes "f \<le> mtl"
  shows "py_slice_from (gate_row mtl f) (int f - 1) = replicate (mtl - gate_start mtl f) 1"
    and "py_slice_upto (gate_row mtl f) (int f - 1) = replicate (gate_start mtl f) 0"
proof -
  have s: "gate_start mtl f \<le> mtl" using assms by (auto simp: gate_start_def)
  have l: "length (gate_row mtl f) = mtl" by (simp add: gate_row_def)
  show "py_slice_from (gate_row mtl f) (int f - 1) = replicate (mtl - gate_start mtl f) 1"
    unfolding py_slice_from_def l py_slice_start_gate[OF assms]
    by (subst gate_row_split[OF assms]) simp
  show "py_slice_upto (gate_row mtl f) (int f - 1) = replicate (gate_start mtl f) 0"
    unfolding py_slice_upto_def l py_slice_start_gate[OF assms]
    by (subst gate_row_split[OF assms]) simp
qed

text \<open>
  Claim C1. Whenever the collator returns a batch, every gate row \<open>i\<close> has length
  \<open>max_target_len\<close>, no less than \<open>output_lengths[i]\<close>, the slice \<^verbatim>\<open>gate[i, output_lengths[i]-1:]\<close> is 1.0 throughout and the
  slice \<^verbatim>\<open>gate[i, :output_lengths[i]-1]\<close> is 0.0 throughout; for a sample with at least
  one mel frame these are the positions from \<open>output_lengths[i] - 1\<close> through
  \<open>max_target_len - 1\<close> and the positions before \<open>output_lengths[i] - 1\<close>. It does return
  a batch for every non-empty batch of mels with one channel count and a positive
  frame-grouping factor.
\<close>

theorem C1_gate_rows:
  assumes ok: "torch_sort_ok srt (map (\<lambda>x. length (s_text x)) batch)"
  shows "(batch \<noteq> [] \<and> 0 < n \<and> (\<forall>x\<in>set batch. size0 (s_mel x) = size0 (s_mel (hd batch)))
            \<longrightarrow> (\<exists>b. TextMelCollate_call srt n batch = Inr b)) \<and>
         (\<forall>b. TextMelCollate_call srt n batch = Inr b \<longrightarrow>
            (\<exists>mtl. round_target_len n (max_frames batch) = Inr mtl \<and>
               length (padded_gate b) = length batch \<and>
               length (output_lengths b) = length batch \<and>
               (\<forall>i<length batch. length (padded_gate b ! i) = mtl \<and> output_lengths b ! i \<le> mtl \<and>
                  (\<forall>x\<in>set (py_slice_from (padded_gate b ! i) (int (output_lengths b ! i) - 1)).
                     x = 1) \<and>
                  (\<forall>x\<in>set (py_slice_upto (padded_gate b ! i) (int (output_lengths b ! i) - 1)).
                     x = 0) \<and>
                  (0 < output_lengths b ! i \<longrightarrow>
                     (\<forall>j<mtl.
                        (output_lengths b ! i - 1 \<le> j \<longrightarrow> padded_gate b ! i ! j = 1) \<and>
                        (j < output_lengths b ! i - 1 \<longrightarrow> padded_gate b ! i ! j = 0))))))"
proof (intro conjI allI impI)
  assume "batch \<noteq> [] \<and> 0 < n \<and> (\<forall>x\<in>set batch. size0 (s_mel x) = size0 (s_mel (hd batch)))"
  then show "\<exists>b. TextMelCollate_call srt n batch = Inr b"
    using collate_returns[OF ok] by blast
next
  fix b assume ret: "TextMelCollate_call srt n batch = Inr b"
  obtain vals ids where sr: "srt (map (\<lambda>x. length (s_text x)) batch) = (vals, ids)"
    by (cases "srt (map (\<lambda>x. length (s_text x)) batch)") auto
  note f = sort_ok_facts[OF ok sr]
  have len: "length ids = length batch" using f(2) by simp
  from collate_Inr[OF ret sr] obtain mtl where
    rt: "round_target_len n (max_frames batch) = Inr mtl"
    and lg: "length (padded_gate b) = length ids" and lo: "length (output_lengths b) = length ids"
    and rows: "\<forall>i<length ids.
              mel_rows (size0 (s_mel (hd batch))) mtl (s_mel (batch ! (ids ! i))) =
                Inr (padded_mel b ! i) \<and>
              padded_gate b ! i = gate_row mtl (size1 (s_mel (batch ! (ids ! i)))) \<and>
              output_lengths b ! i = size1 (s_mel (batch ! (ids ! i)))"
    by blast
  have "length (padded_gate b ! i) = mtl \<and> output_lengths b ! i \<le> mtl \<and>
        (\<forall>x\<in>set (py_slice_from (padded_gate b ! i) (int (output_lengths b ! i) - 1)). x = 1) \<and>
        (\<forall>x\<in>set (py_slice_upto (padded_gate b ! i) (int (output_lengths b ! i) - 1)). x = 0) \<and>
        (0 < output_lengths b ! i \<longrightarrow>
           (\<forall>j<mtl. (output_lengths b ! i - 1 \<le> j \<longrightarrow> padded_gate b ! i ! j = 1) \<and>
                     (j < output_lengths b ! i - 1 \<longrightarrow> padded_gate b ! i ! j = 0)))"
    if i: "i < length batch" for i
  proof -
    from rows i len have
      g: "padded_gate b ! i = gate_row mtl (size1 (s_mel (batch ! (ids ! i))))"
      and o: "output_lengths b ! i = size1 (s_mel (batch ! (ids ! i)))"
      and m: "mel_rows (size0 (s_mel (hd batch))) mtl (s_mel (batch ! (ids ! i))) =
                Inr (padded_mel b ! i)"
      by simp_all
    from mel_rows_Inr(1)[OF m] have le: "size1 (s_mel (batch ! (ids ! i))) \<le> mtl" .
    have "0 < output_lengths b ! i \<longrightarrow>
           (\<forall>j<mtl. (output_lengths b ! i - 1 \<le> j \<longrightarrow> padded_gate b ! i ! j = 1) \<and>
                     (j < output_lengths b ! i - 1 \<longrightarrow> padded_gate b ! i ! j = 0))"
      using le by (auto simp: g o gate_row_nth gate_start_def)
    then show ?thesis
      using le by (simp add: g o length_gate_row gate_row_slices[OF le])
  qed
  then show "\<exists>mtl. round_target_len n (max_frames batch) = Inr mtl \<and>
               length (padded_gate b) = length batch \<and>
               length (output_lengths b) = length batch \<and>
               (\<forall>i<length batch. length (padded_gate b ! i) = mtl \<and> output_lengths b ! i \<le> mtl \<and>
                  (\<forall>x\<in>set (py_slice_from (padded_gate b ! i) (int (output_lengths b ! i) - 1)).
                     x = 1) \<and>
                  (\<forall>x\<in>set (py_slice_upto (padded_gate b ! i) (int (output_lengths b ! i) - 1)).
                     x = 0) \<and>
                  (0 < output_lengths b ! i \<longrightarrow>
                     (\<forall>j<mtl.
                        (output_lengths b ! i - 1 \<le> j \<longrightarrow> padded_gate b ! i ! j = 1) \<and>
                        (j < output_lengths b ! i - 1 \<longrightarrow> padded_gate b ! i ! j = 0))))"
    using rt lg lo len by auto
qed

text \<open>The three-sample batch with frame-grouping factor 4: the sample in row 1 has three
  frames, so its gate is 0.0 at position 1 and 1.0 at position 2. And a batch whose
  row 1 has no frames, with factor 2: the slice from \<open>-1\<close> is the last position, which
  holds 1.0, and the slice up to \<open>-1\<close> is the position before it, which holds 0.0.\<close>

theorem C1_gate_rows_witness:
  "output_lengths (projr (TextMelCollate_call sort_descending 4 demo_batch)) ! 1 = 3 \<and>
   padded_gate (projr (TextMelCollate_call sort_descending 4 demo_batch)) ! 1 ! 2 = 1 \<and>
   padded_gate (projr (TextMelCollate_call sort_descending 4 demo_batch)) ! 1 ! 1 = 0 \<and>
   output_lengths (projr (TextMelCollate_call sort_descending 2 zero_frame_batch)) ! 1 = 0 \<and>
   padded_gate (projr (TextMelCollate_call sort_descending 2 zero_frame_batch)) ! 1 = [0, 1] \<and>
   py_slice_from (padded_gate (projr (TextMelCollate_call sort_descending 2 zero_frame_batch)) ! 1)
     (int (output_lengths (projr (TextMelCollate_call sort_descending 2 zero_frame_batch)) ! 1) - 1)
     = [1] \<and>
   py_slice_upto (padded_gate (projr (TextMelCollate_call sort_descending 2 zero_frame_batch)) ! 1)
     (int (output_lengths (projr (TextMelCollate_call sort_descending 2 zero_frame_batch)) ! 1) - 1)
     = [0]"
proof -
  let ?b = "projr (TextMelCollate_call sort_descending 4 demo_batch)"
  have b: "TextMelCollate_call sort_descending 4 demo_batch = Inr ?b"
    by (simp add: demo_batch_result)
  from C1_gate_rows[OF sort_descending_ok, of demo_batch 4] b
  obtain mtl where rt: "round_target_len 4 (max_frames demo_batch) = Inr mtl"
    and g: "\<forall>i<length demo_batch. length (padded_gate ?b ! i) = mtl \<and> output_lengths ?b ! i \<le> mtl \<and>
              (\<forall>x\<in>set (py_slice_from (padded_gate ?b ! i) (int (output_lengths ?b ! i) - 1)).
                 x = 1) \<and>
              (\<forall>x\<in>set (py_slice_upto (padded_gate ?b ! i) (int (output_lengths ?b ! i) - 1)).
                 x = 0) \<and>
              (0 < output_lengths ?b ! i \<longrightarrow>
                 (\<forall>j<mtl. (output_lengths ?b ! i - 1 \<le> j \<longrightarrow> padded_gate ?b ! i ! j = 1) \<and>
                           (j < output_lengths ?b ! i - 1 \<longrightarrow> padded_gate ?b ! i ! j = 0)))"
    by blast
  have mtl: "mtl = 8" using rt
    by (simp add: demo_batch_def round_target_len_def max_frames_def s_mel_def const_mel_def)
  have ol: "output_lengths ?b ! 1 = 3" by (simp add: demo_batch_result)
  from g have "0 < output_lengths ?b ! 1 \<longrightarrow>
                 (\<forall>j<mtl. (output_lengths ?b ! 1 - 1 \<le> j \<longrightarrow> padded_gate ?b ! 1 ! j = 1) \<and>
                           (j < output_lengths ?b ! 1 - 1 \<longrightarrow> padded_gate ?b ! 1 ! j = 0))"
    by (simp add: demo_batch_def)
  with ol mtl have "padded_gate ?b ! 1 ! 2 = 1 \<and> padded_gate ?b ! 1 ! 1 = 0" by simp
  moreover have
    "output_lengths (projr (TextMelCollate_call sort_descending 2 zero_frame_batch)) ! 1 = 0 \<and>
     padded_gate (projr (TextMelCollate_call sort_descending 2 zero_frame_batch)) ! 1 = [0, 1]"
    by (simp add: zero_frame_batch_result)
  moreover have "py_slice_from [0, 1 :: real] (int 0 - 1) = [1]"
    and "py_slice_upto [0, 1 :: real] (int 0 - 1) = [0]"
    by (simp_all add: py_slice_from_def py_slice_upto_def py_slice_start_def)
  ultimately show ?thesis using ol by (simp add: zero_frame_batch_result)
qed




text \<open>
  Claim C3. Whenever the collator returns a batch, \<open>input_lengths\<close> is sorted in descending
  order, with \<open>input_lengths[0]\<close> the longest token sequence of the batch; one permutation
  \<open>ids\<close> of the batch indices reorders all six fields alike. Row \<open>i\<close> of \<open>padded_text\<close> is
  the token sequence of sample \<open>ids[i]\<close>, left-aligned and followed by zeros up to
  \<open>max_input_len\<close>; row \<open>i\<close> of \<open>padded_mel\<close> holds the entries of that sample's mel inside
  its frames (its single row, when a mel of one channel is broadcast) and 0.0 beyond;
  row \<open>i\<close> of \<open>padded_gate\<close> is 1.0 from that sample's last frame on (at the last position
  only, for a sample without frames) and 0.0 before; \<open>output_lengths[i]\<close> and
  \<open>filenames[i]\<close> are that sample's frame count and file name. It does return a batch
  for every non-empty batch of mels with one channel count and a positive frame-grouping
  factor.
\<close>

theorem C3_sorted_reordered:
  assumes ok: "torch_sort_ok srt (map (\<lambda>x. length (s_text x)) batch)"
  shows "(batch \<noteq> [] \<and> 0 < n \<and> (\<forall>x\<in>set batch. size0 (s_mel x) = size0 (s_mel (hd batch)))
            \<longrightarrow> (\<exists>b. TextMelCollate_call srt n batch = Inr b)) \<and>
         (\<forall>b. TextMelCollate_call srt n batch = Inr b \<longrightarrow>
            (\<exists>ids mtl. round_target_len n (max_frames batch) = Inr mtl \<and>
               mset ids = mset [0..<length batch] \<and>
               sorted_wrt (\<ge>) (input_lengths b) \<and>
               input_lengths b ! 0 = Max (set (map (\<lambda>x. length (s_text x)) batch)) \<and>
               length (input_lengths b) = length batch \<and>
               length (padded_text b) = length batch \<and>
               length (padded_mel b) = length batch \<and>
               length (padded_gate b) = length batch \<and>
               length (output_lengths b) = length batch \<and>
               length (filenames b) = length batch \<and>
               (\<forall>i<length batch.
                  ids ! i < length batch \<and>
                  input_lengths b ! i = length (s_text (batch ! (ids ! i))) \<and>
                  padded_text b ! i =
                    s_text (batch ! (ids ! i)) @
                    replicate (input_lengths b ! 0 - length (s_text (batch ! (ids ! i)))) 0 \<and>
                  size1 (s_mel (batch ! (ids ! i))) \<le> mtl \<and>
                  length (padded_mel b ! i) = size0 (s_mel (hd batch)) \<and>
                  (\<forall>c<size0 (s_mel (hd batch)).
                     length (padded_mel b ! i ! c) = mtl \<and>
                     (\<forall>j<mtl.
                        padded_mel b ! i ! c ! j =
                          (if j < size1 (s_mel (batch ! (ids ! i)))
                           then elem (s_mel (batch ! (ids ! i)))
                                  (if size0 (s_mel (batch ! (ids ! i))) = size0 (s_mel (hd batch))
                                   then c else 0) j
                           else 0))) \<and>
                  length (padded_gate b ! i) = mtl \<and>
                  (\<forall>j<mtl.
                     padded_gate b ! i ! j =
                       (if (if size1 (s_mel (batch ! (ids ! i))) = 0 then mtl - 1
                            else size1 (s_mel (batch ! (ids ! i))) - 1) \<le> j
                        then 1 else 0)) \<and>
                  output_lengths b ! i = size1 (s_mel (batch ! (ids ! i))) \<and>
                  filenames b ! i = s_name (batch ! (ids ! i)))))"
proof (intro conjI allI impI)
  assume "batch \<noteq> [] \<and> 0 < n \<and> (\<forall>x\<in>set batch. size0 (s_mel x) = size0 (s_mel (hd batch)))"
  then show "\<exists>b. TextMelCollate_call srt n batch = Inr b"
    using collate_returns[OF ok] by blast
next
  fix b assume ret: "TextMelCollate_call srt n batch = Inr b"
  let ?xs = "map (\<lambda>x. length (s_text x)) batch"
  obtain vals ids where sr: "srt ?xs = (vals, ids)"
    by (cases "srt ?xs") auto
  note f = sort_ok_facts[OF ok sr]
  have len: "length ids = length batch" using f(2) by simp
  have lv: "length vals = length batch" using f(3) len by simp
  from collate_Inr[OF ret sr] obtain mtl where
    ne: "batch \<noteq> []" and vne: "vals \<noteq> []"
    and rt: "round_target_len n (max_frames batch) = Inr mtl"
    and il: "input_lengths b = vals"
    and ls: "length (padded_text b) = length ids" "length (filenames b) = length ids"
      "length (padded_mel b) = length ids" "length (padded_gate b) = length ids"
      "length (output_lengths b) = length ids"
    and rows: "\<forall>i<length ids. ids ! i < length batch \<and>
              length (s_text (batch ! (ids ! i))) \<le> hd vals \<and>
              padded_text b ! i =
                s_text (batch ! (ids ! i)) @
                replicate (hd vals - length (s_text (batch ! (ids ! i)))) 0 \<and>
              filenames b ! i = s_name (batch ! (ids ! i)) \<and>
              mel_rows (size0 (s_mel (hd batch))) mtl (s_mel (batch ! (ids ! i))) =
                Inr (padded_mel b ! i) \<and>
              padded_gate b ! i = gate_row mtl (size1 (s_mel (batch ! (ids ! i)))) \<and>
              output_lengths b ! i = size1 (s_mel (batch ! (ids ! i)))"
    by blast
  have vi: "vals ! i = length (s_text (batch ! (ids ! i)))" if "i < length batch" for i
    using that f(3) len rows by simp
  have sv: "set vals = set ?xs"
  proof -
    have "set vals = (!) ?xs ` set ids" using f(3) by simp
    also have "\<dots> = (!) ?xs ` {0..<length ?xs}" using f(1) by simp
    also have "\<dots> = set ?xs" by (metis list.set_map map_nth set_upt)
    finally show ?thesis .
  qed
  have "hd vals = Max (set vals)"
  proof (rule sym, rule Max_eqI)
    show "finite (set vals)" by simp
    show "y \<le> hd vals" if "y \<in> set vals" for y using sorted_desc_hd_ge[OF f(4) that] .
    show "hd vals \<in> set vals" using vne by simp
  qed
  then have mx: "vals ! 0 = Max (set ?xs)" using sv vne by (simp add: hd_conv_nth)
  have hd0: "hd vals = vals ! 0" using vne by (simp add: hd_conv_nth)
  have row: "ids ! i < length batch \<and>
                  input_lengths b ! i = length (s_text (batch ! (ids ! i))) \<and>
                  padded_text b ! i =
                    s_text (batch ! (ids ! i)) @
                    replicate (input_lengths b ! 0 - length (s_text (batch ! (ids ! i)))) 0 \<and>
                  size1 (s_mel (batch ! (ids ! i))) \<le> mtl \<and>
                  length (padded_mel b ! i) = size0 (s_mel (hd batch)) \<and>
                  (\<forall>c<size0 (s_mel (hd batch)).
                     length (padded_mel b ! i ! c) = mtl \<and>
                     (\<forall>j<mtl.
                        padded_mel b ! i ! c ! j =
                          (if j < size1 (s_mel (batch ! (ids ! i)))
                           then elem (s_mel (batch ! (ids ! i)))
                                  (if size0 (s_mel (batch ! (ids ! i))) = size0 (s_mel (hd batch))
                                   then c else 0) j
                           else 0))) \<and>
                  length (padded_gate b ! i) = mtl \<and>
                  (\<forall>j<mtl.
                     padded_gate b ! i ! j =
                       (if (if size1 (s_mel (batch ! (ids ! i))) = 0 then mtl - 1
                            else size1 (s_mel (batch ! (ids ! i))) - 1) \<le> j
                        then 1 else 0)) \<and>
                  output_lengths b ! i = size1 (s_mel (batch ! (ids ! i))) \<and>
                  filenames b ! i = s_name (batch ! (ids ! i))"
    if i: "i < length batch" for i
  proof -
    from rows i len have
      r1: "ids ! i < length batch"
      and r2: "padded_text b ! i =
                s_text (batch ! (ids ! i)) @
                replicate (hd vals - length (s_text (batch ! (ids ! i)))) 0"
      and r3: "filenames b ! i = s_name (batch ! (ids ! i))"
      and m: "mel_rows (size0 (s_mel (hd batch))) mtl (s_mel (batch ! (ids ! i))) =
                Inr (padded_mel b ! i)"
      and g: "padded_gate b ! i = gate_row mtl (size1 (s_mel (batch ! (ids ! i))))"
      and o: "output_lengths b ! i = size1 (s_mel (batch ! (ids ! i)))"
      by simp_all
    note mr = mel_rows_Inr[OF m]
    have le: "size1 (s_mel (batch ! (ids ! i))) \<le> mtl" using mr(1) .
    have gt: "\<forall>j<mtl. padded_gate b ! i ! j =
                       (if (if size1 (s_mel (batch ! (ids ! i))) = 0 then mtl - 1
                            else size1 (s_mel (batch ! (ids ! i))) - 1) \<le> j
                        then 1 else 0)"
      using le by (auto simp: g gate_row_nth gate_start_def)
    have me: "\<forall>c<size0 (s_mel (hd batch)).
                     length (padded_mel b ! i ! c) = mtl \<and>
                     (\<forall>j<mtl.
                        padded_mel b ! i ! c ! j =
                          (if j < size1 (s_mel (batch ! (ids ! i)))
                           then elem (s_mel (batch ! (ids ! i)))
                                  (if size0 (s_mel (batch ! (ids ! i))) = size0 (s_mel (hd batch))
                                   then c else 0) j
                           else 0))"
      using mr(3) mel_rows_entries[OF m] by simp
    show ?thesis
      using r1 r2 r3 o le mr(2) me gt vi[OF i] hd0
      by (simp add: il g length_gate_row)
  qed
  show "\<exists>ids mtl. round_target_len n (max_frames batch) = Inr mtl \<and>
               mset ids = mset [0..<length batch] \<and>
               sorted_wrt (\<ge>) (input_lengths b) \<and>
               input_lengths b ! 0 = Max (set (map (\<lambda>x. length (s_text x)) batch)) \<and>
               length (input_lengths b) = length batch \<and>
               length (padded_text b) = length batch \<and>
               length (padded_mel b) = length batch \<and>
               length (padded_gate b) = length batch \<and>
               length (output_lengths b) = length batch \<and>
               length (filenames b) = length batch \<and>
               (\<forall>i<length batch.
                  ids ! i < length batch \<and>
                  input_lengths b ! i = length (s_text (batch ! (ids ! i))) \<and>
                  padded_text b ! i =
                    s_text (batch ! (ids ! i)) @
                    replicate (input_lengths b ! 0 - length (s_text (batch ! (ids ! i)))) 0 \<and>
                  size1 (s_mel (batch ! (ids ! i))) \<le> mtl \<and>
                  length (padded_mel b ! i) = size0 (s_mel (hd batch)) \<and>
                  (\<forall>c<size0 (s_mel (hd batch)).
                     length (padded_mel b ! i ! c) = mtl \<and>
                     (\<forall>j<mtl.
                        padded_mel b ! i ! c ! j =
                          (if j < size1 (s_mel (batch ! (ids ! i)))
                           then elem (s_mel (batch ! (ids ! i)))
                                  (if size0 (s_mel (batch ! (ids ! i))) = size0 (s_mel (hd batch))
                                   then c else 0) j
                           else 0))) \<and>
                  length (padded_gate b ! i) = mtl \<and>
                  (\<forall>j<mtl.
                     padded_gate b ! i ! j =
                       (if (if size1 (s_mel (batch ! (ids ! i))) = 0 then mtl - 1
                            else size1 (s_mel (batch ! (ids ! i))) - 1) \<le> j
                        then 1 else 0)) \<and>
                  output_lengths b ! i = size1 (s_mel (batch ! (ids ! i))) \<and>
                  filenames b ! i = s_name (batch ! (ids ! i)))"
    apply (rule exI[of _ ids], rule exI[of _ mtl])
    using rt f(4) f(5) mx len lv ls row
    by (simp add: il)
qed

text \<open>The three-sample batch: token lengths 2, 1, 3 come back as 3, 2, 1, with the texts,
  mels, gates, file names and frame counts in that same order.\<close>

theorem C3_sorted_reordered_witness:
  "input_lengths (projr (TextMelCollate_call sort_descending 4 demo_batch)) = [3, 2, 1] \<and>
   padded_text (projr (TextMelCollate_call sort_descending 4 demo_batch)) =
     [[4, 5, 6], [1, 2, 0], [3, 0, 0]] \<and>
   padded_mel (projr (TextMelCollate_call sort_descending 4 demo_batch)) =
     [[[3/4, 3/4, 3/4, 3/4, 3/4, 0, 0, 0], [3/4, 3/4, 3/4, 3/4, 3/4, 0, 0, 0]],
      [[1/2, 1/2, 1/2, 0, 0, 0, 0, 0], [1/2, 1/2, 1/2, 0, 0, 0, 0, 0]],
      [[1/4, 0, 0, 0, 0, 0, 0, 0], [1/4, 0, 0, 0, 0, 0, 0, 0]]] \<and>
   padded_gate (projr (TextMelCollate_call sort_descending 4 demo_batch)) =
     [[0, 0, 0, 0, 1, 1, 1, 1], [0, 0, 1, 1, 1, 1, 1, 1], [1, 1, 1, 1, 1, 1, 1, 1]] \<and>
   filenames (projr (TextMelCollate_call sort_descending 4 demo_batch)) = [''c'', ''a'', ''b''] \<and>
   output_lengths (projr (TextMelCollate_call sort_descending 4 demo_batch)) = [5, 3, 1] \<and>
   Max (set (map (\<lambda>x. length (s_text x)) demo_batch)) = 3"
proof -
  let ?b = "projr (TextMelCollate_call sort_descending 4 demo_batch)"
  have b: "TextMelCollate_call sort_descending 4 demo_batch = Inr ?b"
    by (simp add: demo_batch_result)
  from C3_sorted_reordered[OF sort_descending_ok, of demo_batch 4] b
  have mx: "input_lengths ?b ! 0 = Max (set (map (\<lambda>x. length (s_text x)) demo_batch))"
    by blast
  have "input_lengths ?b ! 0 = 3" by (simp add: demo_batch_result)
  with mx have "Max (set (map (\<lambda>x. length (s_text x)) demo_batch)) = 3" by simp
  then show ?thesis by (simp add: demo_batch_result)
qed

section \<open>The manifest loader\<close>

lemma str_strip_id:
  assumes "s \<noteq> []" and "\<not> is_space (hd s)" and "\<not> is_space (last s)"
  shows "str_strip s = s"
proof -
  have 1: "dropWhile is_space s = s" using assms(2) by (simp add: dropWhile_eq_self_iff)
  have 2: "dropWhile is_space (rev s) = rev s"
    using assms(1,3) by (simp add: dropWhile_eq_self_iff hd_rev)
  show ?thesis by (simp add: str_strip_def 1 2)
qed

lemmas manifest_eval = load_mozilla_cv_def tab_def str_strip_def is_space_def mozilla_cv_entry_def

text \<open>
  Claim C7, with the stripping the code does. For every mozilla\_cv manifest file, the
  loader strips the leading and trailing whitespace of each line, splits it on tabs and
  discards the first row as a header; when every remaining row then has at least three
  fields, it produces for every remaining row, in row order, the entry whose audio path
  is \<open>clips/\<close> prepended to field 1 and whose transcript is field 2.
\<close>

theorem C7_mozilla_cv_rows:
  assumes "opener filename = Inr f"
    and "\<forall>line\<in>set (drop 1 f). 3 \<le> length (str_split tab (str_strip line))"
  shows "load_mozilla_cv opener filename =
           Inr (map (\<lambda>line. (''clips/'' @ str_split tab (str_strip line) ! 1,
                              str_split tab (str_strip line) ! 2)) (drop 1 f))"
proof -
  have "map_err mozilla_cv_entry (map (\<lambda>line. str_split tab (str_strip line)) (drop 1 f)) =
        Inr (map (\<lambda>c. (''clips/'' @ c ! 1, c ! 2))
                 (map (\<lambda>line. str_split tab (str_strip line)) (drop 1 f)))"
    by (rule map_err_map) (use assms(2) in \<open>auto simp: mozilla_cv_entry_def\<close>)
  then show ?thesis
    by (simp add: load_mozilla_cv_def assms(1) drop_map o_def)
qed

text \<open>A header and two rows give two entries, in row order.\<close>

theorem C7_mozilla_cv_rows_witness:
  "load_mozilla_cv demo_manifest ''train.tsv'' =
     Inr [(''clips/x.mp3'', ''hello''), (''clips/y.mp3'', ''bye'')]"
proof -
  have f: "demo_manifest ''train.tsv'' =
      Inr [''client_id'' @ [tab] @ ''path'' @ [tab] @ ''sentence'',
           ''7'' @ [tab] @ ''x.mp3'' @ [tab] @ ''hello'',
           ''8'' @ [tab] @ ''y.mp3'' @ [tab] @ ''bye'' @ [tab] @ ''2'' @ [tab]]"
    by (simp add: demo_manifest_def)
  show ?thesis
    using C7_mozilla_cv_rows[of demo_manifest "''train.tsv''", OF f]
    by (simp add: tab_def str_strip_def is_space_def)
qed

text \<open>
  Claim C7 as stated, splitting each line on tabs: the first row's fields 1 and 2 are
  \<open>x.mp3\<close> and \<open>hello\<close>, but the loader, having stripped the leading tab, pairs
  \<open>clips/hello\<close> with \<open>30\<close>; the second row's field 2 is \<open>bye\<close> with a space, and the
  loader returns it without.
\<close>

theorem C7_strip_counterexample:
  "load_mozilla_cv shifted_manifest ''train.tsv'' =
     Inr [(''clips/hello'', ''30''), (''clips/y.mp3'', ''bye'')] \<and>
   str_split tab ([tab] @ ''x.mp3'' @ [tab] @ ''hello'' @ [tab] @ ''30'') ! 1 = ''x.mp3'' \<and>
   str_split tab ([tab] @ ''x.mp3'' @ [tab] @ ''hello'' @ [tab] @ ''30'') ! 2 = ''hello'' \<and>
   str_split tab (''8'' @ [tab] @ ''y.mp3'' @ [tab] @ ''bye '') ! 2 = ''bye ''"
  by (simp add: manifest_eval shifted_manifest_def)

section \<open>Construction of the dataset\<close>

lemma demo_fetch:
  "fetch_manifest demo_env demo_hparams =
     Inr [(''clips/x.mp3'', ''hello''), (''clips/y.mp3'', ''bye'')]"
  by (simp add: fetch_manifest_def demo_env_def demo_hparams_def opt_get_def demo_manifest_def
        manifest_eval)

text \<open>
  Claim C6. When the manifest has been fetched and the STFT has been built, construction
  raises the AssertionError of its two checks exactly when \<open>load_mel_from_disk\<close> and
  \<open>return_wavs\<close> are both set, or \<open>needs_collate\<close> is false and \<open>max_mel_length\<close> or
  \<open>max_text_length\<close> is unset; in every other configuration it returns the dataset.
\<close>

theorem C6_config_checks:
  assumes fetch: "fetch_manifest env hp = Inr fetched"
    and stft: "TacotronSTFT env (hp_filter_length hp) (hp_hop_length hp) (hp_win_length hp)
                 (hp_n_mel_channels hp) (hp_sampling_rate hp) (hp_mel_fmin hp) (hp_mel_fmax hp) =
               Inr ms"
  shows "((fst (TextMelLoader_init env g hp) = Inl AssertionError) =
            ((hp_load_mel_from_disk hp \<and> opt_get (hp_return_wavs hp) False) \<or>
             (\<not> opt_get (hp_needs_collate hp) True \<and>
                (hp_max_mel_length hp = None \<or> hp_max_text_length hp = None)))) \<and>
         ((\<exists>self. fst (TextMelLoader_init env g hp) = Inr self) =
            (\<not> ((hp_load_mel_from_disk hp \<and> opt_get (hp_return_wavs hp) False) \<or>
                (\<not> opt_get (hp_needs_collate hp) True \<and>
                   (hp_max_mel_length hp = None \<or> hp_max_text_length hp = None)))))"
  using fetch stft
  by (auto simp: TextMelLoader_init_def Let_def split: prod.splits)

text \<open>A configuration with \<open>needs_collate\<close> off and both lengths set passes; without
  \<open>max_text_length\<close>, or with both \<open>load_mel_from_disk\<close> and \<open>return_wavs\<close>, it raises.\<close>

theorem C6_config_checks_witness:
  "fst (TextMelLoader_init demo_env 0 demo_hparams) \<noteq> Inl AssertionError \<and>
   fst (TextMelLoader_init demo_env 0 (demo_hparams\<lparr> hp_max_text_length := None \<rparr>)) =
     Inl AssertionError \<and>
   fst (TextMelLoader_init demo_env 0
          (demo_hparams\<lparr> hp_load_mel_from_disk := True, hp_return_wavs := Some True \<rparr>)) =
     Inl AssertionError"
proof -
  have s: "TacotronSTFT demo_env a b c d e f g = Inr (demo_stft d)"
    for a b c d e f g
    by (simp add: demo_env_def)
  have 1: "fetch_manifest demo_env (demo_hparams\<lparr> hp_max_text_length := None \<rparr>) =
      Inr [(''clips/x.mp3'', ''hello''), (''clips/y.mp3'', ''bye'')]"
    by (simp add: fetch_manifest_def demo_env_def demo_hparams_def opt_get_def demo_manifest_def
          manifest_eval)
  have 2: "fetch_manifest demo_env
             (demo_hparams\<lparr> hp_load_mel_from_disk := True, hp_return_wavs := Some True \<rparr>) =
      Inr [(''clips/x.mp3'', ''hello''), (''clips/y.mp3'', ''bye'')]"
    by (simp add: fetch_manifest_def demo_env_def demo_hparams_def opt_get_def demo_manifest_def
          manifest_eval)
  show ?thesis
    using C6_config_checks[OF demo_fetch s, of 0] C6_config_checks[OF 1 s, of 0]
      C6_config_checks[OF 2 s, of 0]
    by (simp add: demo_hparams_def opt_get_def)
qed

text \<open>
  Claim C8. Constructing the dataset twice in the same environment (the same files) with
  the same configuration, hence the same seed, gives the same result whatever the state
  of the global random generator was before each construction; the ordered entry list is
  the shuffle, by the generator seeded with \<open>seed\<close>, of the fetched list.
\<close>

theorem C8_shuffle_deterministic:
  "fst (TextMelLoader_init env g1 hp) = fst (TextMelLoader_init env g2 hp) \<and>
   (case fst (TextMelLoader_init env g1 hp) of
      Inl e \<Rightarrow> True
    | Inr self \<Rightarrow>
        Inr (audiopaths_and_text self) =
          map_sum id (\<lambda>fetched. fst (random_shuffle env (random_seed env (hp_seed hp)) fetched))
            (fetch_manifest env hp))"
  by (auto simp: TextMelLoader_init_def Let_def split: prod.splits sum.splits)

text \<open>From the generator states 0 and 5 the same dataset results, its two entries in the
  order the shuffle of this environment gives.\<close>

theorem C8_shuffle_deterministic_witness:
  "fst (TextMelLoader_init demo_env 0 demo_hparams) =
     fst (TextMelLoader_init demo_env 5 demo_hparams) \<and>
   map_sum id audiopaths_and_text (fst (TextMelLoader_init demo_env 5 demo_hparams)) =
     Inr [(''clips/y.mp3'', ''bye''), (''clips/x.mp3'', ''hello'')]"
proof -
  have "map_sum id audiopaths_and_text (fst (TextMelLoader_init demo_env 5 demo_hparams)) =
     Inr [(''clips/y.mp3'', ''bye''), (''clips/x.mp3'', ''hello'')]"
    by (simp add: TextMelLoader_init_def demo_fetch)
       (simp add: demo_env_def demo_hparams_def opt_get_def)
  with C8_shuffle_deterministic[of demo_env 0 demo_hparams 5] show ?thesis by simp
qed

section \<open>The feature extractor\<close>

lemma fmin_NaN: "(fmin a b = NaN) = (a = NaN \<or> b = NaN)"
  by (simp add: fmin_def)

lemma fmax_NaN: "(fmax a b = NaN) = (a = NaN \<or> b = NaN)"
  by (simp add: fmax_def)

lemma fold_fmin_NaN: "(fold fmin xs a = NaN) = (a = NaN \<or> NaN \<in> set xs)"
  by (induction xs arbitrary: a) (auto simp: fmin_NaN)

lemma fold_fmax_NaN: "(fold fmax xs a = NaN) = (a = NaN \<or> NaN \<in> set xs)"
  by (induction xs arbitrary: a) (auto simp: fmax_NaN)

lemma flt_fmin:
  "a \<noteq> NaN \<Longrightarrow> b \<noteq> NaN \<Longrightarrow> flt (fmin a b) (Fin c) = (flt a (Fin c) \<or> flt b (Fin c))"
  by (cases a; cases b) (auto simp: fmin_def)

lemma flt_fmax:
  "a \<noteq> NaN \<Longrightarrow> b \<noteq> NaN \<Longrightarrow> flt (Fin c) (fmax a b) = (flt (Fin c) a \<or> flt (Fin c) b)"
  by (cases a; cases b) (auto simp: fmax_def)

lemma flt_fold_fmin:
  "a \<noteq> NaN \<Longrightarrow> NaN \<notin> set xs \<Longrightarrow>
     flt (fold fmin xs a) (Fin c) = (flt a (Fin c) \<or> (\<exists>v\<in>set xs. flt v (Fin c)))"
proof (induction xs arbitrary: a)
  case (Cons x xs)
  have "x \<noteq> NaN" using Cons.prems by auto
  then have "fmin x a \<noteq> NaN" using Cons.prems by (simp add: fmin_NaN)
  then show ?case using Cons.IH[of "fmin x a"] Cons.prems by (auto simp: flt_fmin)
qed simp

lemma flt_fold_fmax:
  "a \<noteq> NaN \<Longrightarrow> NaN \<notin> set xs \<Longrightarrow>
     flt (Fin c) (fold fmax xs a) = (flt (Fin c) a \<or> (\<exists>v\<in>set xs. flt (Fin c) v))"
proof (induction xs arbitrary: a)
  case (Cons x xs)
  have "x \<noteq> NaN" using Cons.prems by auto
  then have "fmax x a \<noteq> NaN" using Cons.prems by (simp add: fmax_NaN)
  then show ?case using Cons.IH[of "fmax x a"] Cons.prems by (auto simp: flt_fmax)
qed simp

lemma tensor_min_NaN: "xs \<noteq> [] \<Longrightarrow> (tensor_min xs = NaN) = (NaN \<in> set xs)"
  by (cases xs) (auto simp: tensor_min_def fold_fmin_NaN fmin_NaN)

lemma tensor_max_NaN: "xs \<noteq> [] \<Longrightarrow> (tensor_max xs = NaN) = (NaN \<in> set xs)"
  by (cases xs) (auto simp: tensor_max_def fold_fmax_NaN fmax_NaN)

lemma flt_NaN_left: "flt NaN v = False"
  by simp

lemma flt_NaN_right: "flt v NaN = False"
  by (cases v) simp_all

lemma out_of_range_iff:
  assumes "xs \<noteq> []"
  shows "(flt (tensor_min xs) (Fin (-1)) \<or> flt (Fin 1) (tensor_max xs)) =
         (NaN \<notin> set xs \<and> (\<exists>v\<in>set xs. flt v (Fin (-1)) \<or> flt (Fin 1) v))"
proof (cases "NaN \<in> set xs")
  case True
  then show ?thesis
    using tensor_min_NaN[OF assms] tensor_max_NaN[OF assms] by (simp add: flt_NaN_right)
next
  case False
  obtain a list where xs: "xs = a # list" using assms by (cases xs) auto
  have a: "a \<noteq> NaN" and l: "NaN \<notin> set list" using False xs by auto
  have m: "fmin a a = a" "fmax a a = a" using a by (simp_all add: fmin_def fmax_def)
  have 1: "flt (tensor_min xs) (Fin (-1)) = (\<exists>v\<in>set xs. flt v (Fin (-1)))"
    unfolding tensor_min_def xs using flt_fold_fmin[OF a l, of "-1"] by (simp add: m)
  have 2: "flt (Fin 1) (tensor_max xs) = (\<exists>v\<in>set xs. flt (Fin 1) v)"
    unfolding tensor_max_def xs using flt_fold_fmax[OF a l, of 1] by (simp add: m)
  show ?thesis using False by (auto simp: 1 2)
qed

lemma remap_Fin:
  "fdiv (fadd (clip (-1) 1 (Fin x)) (Fin 1)) 2 = Fin ((min 1 (max (-1) x) + 1) / 2)"
  by (simp add: clip_def fdiv_def)

lemma remap_range:
  "if v = NaN then fdiv (fadd (clip (-1) 1 v) (Fin 1)) 2 = NaN
   else \<exists>x. fdiv (fadd (clip (-1) 1 v) (Fin 1)) 2 = Fin x \<and> 0 \<le> x \<and> x \<le> 1"
proof (cases v)
  case (Fin x)
  define y where "y = (min 1 (max (-1) x) + 1) / 2"
  have "0 \<le> y \<and> y \<le> 1"
    by (simp add: y_def min_def max_def)
  then have "\<exists>z. Fin y = Fin z \<and> 0 \<le> z \<and> z \<le> 1" by blast
  then show ?thesis unfolding Fin remap_Fin y_def by simp
qed (simp_all add: clip_def fdiv_def)

lemma audio_values_squeeze: "audio_values (squeeze xs) = xs"
proof (cases xs)
  case (Cons a list)
  then show ?thesis by (cases list) (simp_all add: squeeze_def audio_values_def)
qed (simp add: squeeze_def audio_values_def)

lemma resample_to_input_rate_range:
  assumes "rate \<noteq> input_sample_rate self"
    and "resample_to_input_rate env self filename audio0 rate out = (Inr audio, out')"
  shows "\<exists>resampled. interpolate_area env audio0 (input_sample_rate self) rate = Inr resampled \<and>
           length (audio_values audio) = length resampled \<and>
           (\<forall>i<length resampled.
              if resampled ! i = NaN then audio_values audio ! i = NaN
              else \<exists>x. audio_values audio ! i = Fin x \<and> 0 \<le> x \<and> x \<le> 1)"
proof -
  from assms obtain resampled where
    i: "interpolate_area env audio0 (input_sample_rate self) rate = Inr resampled"
    and a: "audio = squeeze (map (\<lambda>x. fdiv (fadd (clip (-1) 1 x) (Fin 1)) 2) resampled)"
    by (auto simp: resample_to_input_rate_def Let_def split: if_splits sum.splits)
  show ?thesis
    using i remap_range by (intro exI[of _ resampled]) (simp add: a audio_values_squeeze)
qed

lemma resampled_not_out_of_range:
  assumes "rate \<noteq> input_sample_rate self"
    and "resample_to_input_rate env self filename audio0 rate out = (Inr audio, out')"
  shows "\<not> (\<exists>v\<in>set (audio_values audio). flt v (Fin (-1)) \<or> flt (Fin 1) v)"
proof
  assume "\<exists>v\<in>set (audio_values audio). flt v (Fin (-1)) \<or> flt (Fin 1) v"
  then obtain v where v: "v \<in> set (audio_values audio)" and o: "flt v (Fin (-1)) \<or> flt (Fin 1) v"
    by blast
  from v obtain i where i: "i < length (audio_values audio)" and vi: "audio_values audio ! i = v"
    by (auto simp: in_set_conv_nth)
  from resample_to_input_rate_range[OF assms] i vi
  have "v = NaN \<or> (\<exists>x. v = Fin x \<and> 0 \<le> x \<and> x \<le> 1)"
    by (metis (no_types, lifting))
  with o show False by auto
qed

text \<open>
  Claim C10, with NaN. Whenever the native sample rate differs from \<open>input_sample_rate\<close>,
  every value that the resampling branch returns is NaN where the interpolated value was
  NaN and lies in \<open>[0, 1]\<close> everywhere else, and \<open>get_mel\<close> in raw-audio mode does not
  return null: the range check cannot fire on that path.
\<close>

theorem C10_resampled_in_unit_range:
  assumes raw: "\<not> load_mel_from_disk self"
    and load: "load_audio env self filename = Inr (audio0, rate)"
    and ne: "rate \<noteq> input_sample_rate self"
  shows "(\<forall>audio out'. resample_to_input_rate env self filename audio0 rate out = (Inr audio, out')
            \<longrightarrow> (\<exists>resampled.
                   interpolate_area env audio0 (input_sample_rate self) rate = Inr resampled \<and>
                   length (audio_values audio) = length resampled \<and>
                   (\<forall>i<length resampled.
                      if resampled ! i = NaN then audio_values audio ! i = NaN
                      else \<exists>x. audio_values audio ! i = Fin x \<and> 0 \<le> x \<and> x \<le> 1))) \<and>
         fst (get_mel env self filename out) \<noteq> Inr None"
proof
  show "\<forall>audio out'. resample_to_input_rate env self filename audio0 rate out = (Inr audio, out')
            \<longrightarrow> (\<exists>resampled.
                   interpolate_area env audio0 (input_sample_rate self) rate = Inr resampled \<and>
                   length (audio_values audio) = length resampled \<and>
                   (\<forall>i<length resampled.
                      if resampled ! i = NaN then audio_values audio ! i = NaN
                      else \<exists>x. audio_values audio ! i = Fin x \<and> 0 \<le> x \<and> x \<le> 1))"
    using resample_to_input_rate_range[OF ne] by blast
next
  obtain r out' where rs: "resample_to_input_rate env self filename audio0 rate out = (r, out')"
    by (cases "resample_to_input_rate env self filename audio0 rate out") auto
  show "fst (get_mel env self filename out) \<noteq> Inr None"
  proof (cases r)
    case (Inl e)
    with raw load rs show ?thesis by (simp add: get_mel_def)
  next
    case (Inr audio)
    show ?thesis
    proof (cases "audio_values audio = []")
      case True
      with raw load rs Inr show ?thesis by (simp add: get_mel_def)
    next
      case False
      from resampled_not_out_of_range[OF ne rs[unfolded Inr]]
      have "\<not> (flt (tensor_min (audio_values audio)) (Fin (-1)) \<or>
               flt (Fin 1) (tensor_max (audio_values audio)))"
        using out_of_range_iff[OF False] by simp
      with raw load rs Inr False show ?thesis
        by (simp add: get_mel_def split: sum.splits)
    qed
  qed
qed

text \<open>
  Claim C5, with the check where the code has it. In raw-audio mode, once the waveform
  has been decoded and brought to \<open>input_sample_rate\<close> (before any resampling to
  \<open>sampling_rate\<close>) and is not empty: if none of its values is NaN and one of them lies
  outside \<open>[-1, 1]\<close>, \<open>get_mel\<close> prints the diagnostic and returns null without raising;
  otherwise it goes on to produce the features.
\<close>

theorem C5_range_check:
  assumes raw: "\<not> load_mel_from_disk self"
    and load: "load_audio env self filename = Inr (audio0, rate)"
    and rs: "resample_to_input_rate env self filename audio0 rate out = (Inr audio, out')"
    and ne: "audio_values audio \<noteq> []"
  shows "get_mel env self filename out =
           (if NaN \<notin> set (audio_values audio) \<and>
               (\<exists>v\<in>set (audio_values audio). flt v (Fin (-1)) \<or> flt (Fin 1) v)
            then (Inr None,
                  out' @ [AudioRange filename (tensor_min (audio_values audio))
                            (tensor_max (audio_values audio))])
            else (map_sum id Some (produce_features env self audio), out'))"
  using raw load rs ne out_of_range_iff[OF ne]
  by (simp add: get_mel_def split: sum.splits)

lemmas get_mel_eval = get_mel_def load_audio_def endswith_def resample_to_input_rate_def
  resample_to_sampling_rate_def produce_features_def tensor_min_def tensor_max_def
  demo_env_def demo_loader_def zero_scale_loader_def demo_audio_def area_interpolate_def
  clip_def fdiv_def fmin_def fmax_def squeeze_def audio_values_def demo_stft_def
  const_spec_def Let_def upt_rec

text \<open>A waveform with the values 2 and -2 gives null and one diagnostic; a waveform
  within range gives a mel of two frames; a \<^verbatim>\<open>.wav\<close> file with the samples 1 and -1,
  divided by a \<open>max_wav_value\<close> of zero, holds both infinities and gives null.\<close>

theorem C5_range_check_witness:
  "get_mel demo_env demo_loader ''loud.mp3'' [] =
     (Inr None, [AudioRange ''loud.mp3'' (Fin (-2)) (Fin 2)]) \<and>
   get_mel demo_env demo_loader ''ok.mp3'' [] = (Inr (Some (const_spec 2 2 (Fin 0))), []) \<and>
   get_mel demo_env zero_scale_loader ''click.wav'' [] =
     (Inr None, [AudioRange ''click.wav'' NInf PInf])"
proof -
  have raw: "\<not> load_mel_from_disk demo_loader" by (simp add: demo_loader_def)
  have raw0: "\<not> load_mel_from_disk zero_scale_loader"
    by (simp add: demo_loader_def zero_scale_loader_def)
  have l1: "load_audio demo_env demo_loader ''loud.mp3'' = Inr ([Fin 2, Fin (-2)], 2)"
    by (simp add: get_mel_eval)
  have r1: "resample_to_input_rate demo_env demo_loader ''loud.mp3'' [Fin 2, Fin (-2)] 2 [] =
      (Inr (Audio1 [Fin 2, Fin (-2)]), [])"
    by (simp add: get_mel_eval)
  have l2: "load_audio demo_env demo_loader ''ok.mp3'' =
      Inr ([Fin (1/2), Fin (-1/2), Fin (1/4), Fin 0], 2)"
    by (simp add: get_mel_eval)
  have r2: "resample_to_input_rate demo_env demo_loader ''ok.mp3''
              [Fin (1/2), Fin (-1/2), Fin (1/4), Fin 0] 2 [] =
      (Inr (Audio1 [Fin (1/2), Fin (-1/2), Fin (1/4), Fin 0]), [])"
    by (simp add: get_mel_eval)
  have p2: "produce_features demo_env demo_loader (Audio1 [Fin (1/2), Fin (-1/2), Fin (1/4), Fin 0]) =
      Inr (const_spec 2 2 (Fin 0))"
    by (simp add: get_mel_eval)
  have l3: "load_audio demo_env zero_scale_loader ''click.wav'' = Inr ([PInf, NInf], 2)"
    by (simp add: get_mel_eval)
  have r3: "resample_to_input_rate demo_env zero_scale_loader ''click.wav'' [PInf, NInf] 2 [] =
      (Inr (Audio1 [PInf, NInf]), [])"
    by (simp add: get_mel_eval)
  from C5_range_check[OF raw l1 r1] C5_range_check[OF raw l2 r2] p2
    C5_range_check[OF raw0 l3 r3]
  show ?thesis by (simp add: tensor_min_def tensor_max_def audio_values_def fmin_def fmax_def)
qed

text \<open>
  Claim C5 as stated, with \<open>input_sample_rate\<close> 2 and \<open>sampling_rate\<close> 1: the waveform 2, -2
  at rate 2 becomes the single value 0 after all resampling, which lies within
  \<open>[-1, 1]\<close>, and \<open>get_mel\<close> still returns null, since it checked the range before the
  second resampling.
\<close>

theorem C5_check_before_second_resampling_counterexample:
  "waveform_after_resampling demo_env demo_loader ''loud.mp3'' = Inr (Audio1 [Fin 0]) \<and>
   \<not> flt (Fin 0) (Fin (-1)) \<and> \<not> flt (Fin 1) (Fin 0) \<and>
   get_mel demo_env demo_loader ''loud.mp3'' [] =
     (Inr None, [AudioRange ''loud.mp3'' (Fin (-2)) (Fin 2)])"
  by (simp add: waveform_after_resampling_def get_mel_eval)

text \<open>A waveform 3, -3 at rate 1, resampled to rate 2, comes out as 1, 1, 0, 0, and
  \<open>get_mel\<close> does not return null. The same waveform at rate 4 comes out as the single
  value 1/2, a tensor without dimension, which the second resampling refuses.\<close>

theorem C10_resampled_in_unit_range_witness:
  "resample_to_input_rate demo_env demo_loader ''slow.mp3'' [Fin 3, Fin (-3)] 1 [] =
     (Inr (Audio1 [Fin 1, Fin 1, Fin 0, Fin 0]), [LowSampleRate ''slow.mp3'' 1 2]) \<and>
   fst (get_mel demo_env demo_loader ''slow.mp3'' []) \<noteq> Inr None \<and>
   get_mel demo_env demo_loader ''slow.mp3'' [] =
     (Inr (Some (const_spec 2 2 (Fin 0))), [LowSampleRate ''slow.mp3'' 1 2]) \<and>
   resample_to_input_rate demo_env demo_loader ''fast.mp3'' [Fin 3, Fin (-3)] 4 [] =
     (Inr (Audio0 (Fin (1/2))), []) \<and>
   get_mel demo_env demo_loader ''fast.mp3'' [] = (Inl NotImplementedError, [])"
proof -
  have raw: "\<not> load_mel_from_disk demo_loader" by (simp add: demo_loader_def)
  have l: "load_audio demo_env demo_loader ''slow.mp3'' = Inr ([Fin 3, Fin (-3)], 1)"
    by (simp add: get_mel_eval)
  have ne: "1 \<noteq> input_sample_rate demo_loader" by (simp add: demo_loader_def)
  have r: "resample_to_input_rate demo_env demo_loader ''slow.mp3'' [Fin 3, Fin (-3)] 1 [] =
     (Inr (Audio1 [Fin 1, Fin 1, Fin 0, Fin 0]), [LowSampleRate ''slow.mp3'' 1 2])"
    by (simp add: get_mel_eval)
  have g: "get_mel demo_env demo_loader ''slow.mp3'' [] =
     (Inr (Some (const_spec 2 2 (Fin 0))), [LowSampleRate ''slow.mp3'' 1 2])"
    by (simp add: get_mel_eval)
  have r4: "resample_to_input_rate demo_env demo_loader ''fast.mp3'' [Fin 3, Fin (-3)] 4 [] =
     (Inr (Audio0 (Fin (1/2))), [])"
    by (simp add: get_mel_eval)
  have g4: "get_mel demo_env demo_loader ''fast.mp3'' [] = (Inl NotImplementedError, [])"
    by (simp add: get_mel_eval)
  from C10_resampled_in_unit_range[OF raw l ne, of "[]"] r g r4 g4 show ?thesis by simp
qed

text \<open>
  Claim C10 as stated, with a \<open>max_wav_value\<close> of zero: a \<^verbatim>\<open>.wav\<close> file of two zero
  samples at rate 1 is divided into NaN, its resampling to rate 2 is NaN, and clipping
  and remapping leave NaN, which is not a value of \<open>[0, 1]\<close>; \<open>get_mel\<close> goes on to the
  features.
\<close>

theorem C10_nan_counterexample:
  "load_audio demo_env zero_scale_loader ''silent.wav'' = Inr ([NaN, NaN], 1) \<and>
   input_sample_rate zero_scale_loader = 2 \<and>
   resample_to_input_rate demo_env zero_scale_loader ''silent.wav'' [NaN, NaN] 1 [] =
     (Inr (Audio1 [NaN, NaN, NaN, NaN]), [LowSampleRate ''silent.wav'' 1 2]) \<and>
   \<not> flt NaN (Fin 0) \<and> \<not> flt (Fin 0) NaN \<and> NaN \<noteq> Fin 0 \<and>
   get_mel demo_env zero_scale_loader ''silent.wav'' [] =
     (Inr (Some (const_spec 2 2 (Fin 0))), [LowSampleRate ''silent.wav'' 1 2])"
  by (simp add: get_mel_eval)

section \<open>Dataset access\<close>

lemma getitem_returns_valid:
  "getitem env self depth index (g, out) = (Inr it, g', out') \<Longrightarrow>
     \<exists>k t m p o1 o2. k < length (audiopaths_and_text self) \<and>
        get_mel_text_pair env self (audiopaths_and_text self ! k) o1 = (Inr (t, Some m, p), o2) \<and>
        \<not> invalid_sample self t (Some m) \<and> finish_item self t m p = Inr it"
proof (induction depth arbitrary: index g out)
  case 0
  then show ?case by simp
next
  case (Suc depth)
  show ?case
  proof (cases "length (audiopaths_and_text self) \<le> index")
    case True
    with Suc.prems show ?thesis by simp
  next
    case False
    obtain r o1 where gp: "get_mel_text_pair env self (audiopaths_and_text self ! index) out = (r, o1)"
      by (cases "get_mel_text_pair env self (audiopaths_and_text self ! index) out") auto
    show ?thesis
    proof (cases r)
      case (Inl e)
      with Suc.prems False gp show ?thesis by simp
    next
      case (Inr tmp)
      obtain t m p where tmp: "tmp = (t, m, p)" by (cases tmp) auto
      show ?thesis
      proof (cases "invalid_sample self t m")
        case True
        obtain rv g1 where rr: "random_randint env g 0 (length (audiopaths_and_text self) - 1) = (rv, g1)"
          by (cases "random_randint env g 0 (length (audiopaths_and_text self) - 1)") auto
        from Suc.prems False gp Inr tmp True rr
        have "\<exists>o3. getitem env self depth rv (g1, o3) = (Inr it, g', out')"
          by (auto simp: Let_def)
        then show ?thesis using Suc.IH by blast
      next
        case inv: False
        then obtain mel where m: "m = Some mel" by (cases m) (auto simp: invalid_sample_def)
        from Suc.prems False gp Inr tmp inv m
        have "finish_item self t mel p = Inr it" by simp
        with False gp Inr tmp inv m show ?thesis
          by (intro exI[of _ index] exI[of _ t] exI[of _ mel] exI[of _ p] exI[of _ out] exI[of _ o1]) simp
      qed
    qed
  qed
qed

text \<open>
  Claim C4, with the draw as the code makes it. When the recursion limit leaves no
  further call, dataset access raises RecursionError. Otherwise: an index past the end
  raises IndexError; an exception raised while the sample is loaded propagates, with
  nothing drawn; for an index whose sample is invalid, access prints a diagnostic when
  the features were non-null, then draws \<^verbatim>\<open>rv = random.randint(0, len - 1)\<close>, an
  index of the whole dataset that may be the same one, and returns what access at \<open>rv\<close>
  returns, one level deeper; at an index whose sample is valid it returns that sample at
  once, drawing nothing. Whenever access returns an item, it is built from a sample of
  the dataset that passed the validity test.
\<close>

theorem C4_retry_on_invalid:
  "getitem env self 0 index (g, out) = (Inl RecursionError, g, out) \<and>
   (length (audiopaths_and_text self) \<le> index \<longrightarrow>
      getitem env self (Suc depth) index (g, out) = (Inl IndexError, g, out)) \<and>
   (\<forall>e out1.
      index < length (audiopaths_and_text self) \<and>
      get_mel_text_pair env self (audiopaths_and_text self ! index) out = (Inl e, out1) \<longrightarrow>
      getitem env self (Suc depth) index (g, out) = (Inl e, g, out1)) \<and>
   (\<forall>t m p out1.
      index < length (audiopaths_and_text self) \<and>
      get_mel_text_pair env self (audiopaths_and_text self ! index) out = (Inr (t, m, p), out1) \<and>
      invalid_sample self t m \<longrightarrow>
      getitem env self (Suc depth) index (g, out) =
        (case random_randint env g 0 (length (audiopaths_and_text self) - 1) of
           (rv, g1) \<Rightarrow>
             getitem env self depth rv
               (g1, out1 @ (case m of None \<Rightarrow> []
                            | Some mel \<Rightarrow> [SampleException index (size1 mel) (length t) p])))) \<and>
   (\<forall>t mel p out1.
      index < length (audiopaths_and_text self) \<and>
      get_mel_text_pair env self (audiopaths_and_text self ! index) out =
        (Inr (t, Some mel, p), out1) \<and>
      \<not> invalid_sample self t (Some mel) \<longrightarrow>
      getitem env self (Suc depth) index (g, out) = (finish_item self t mel p, g, out1)) \<and>
   (\<forall>it g' out'.
      getitem env self depth index (g, out) = (Inr it, g', out') \<longrightarrow>
      (\<exists>k t m p o1 o2. k < length (audiopaths_and_text self) \<and>
         get_mel_text_pair env self (audiopaths_and_text self ! k) o1 = (Inr (t, Some m, p), o2) \<and>
         \<not> invalid_sample self t (Some m) \<and> finish_item self t m p = Inr it))"
proof (intro conjI allI impI)
  show "getitem env self 0 index (g, out) = (Inl RecursionError, g, out)" by simp
next
  assume "length (audiopaths_and_text self) \<le> index"
  then show "getitem env self (Suc depth) index (g, out) = (Inl IndexError, g, out)" by simp
next
  fix e out1
  assume "index < length (audiopaths_and_text self) \<and>
      get_mel_text_pair env self (audiopaths_and_text self ! index) out = (Inl e, out1)"
  then show "getitem env self (Suc depth) index (g, out) = (Inl e, g, out1)" by simp
next
  fix t m p out1
  assume "index < length (audiopaths_and_text self) \<and>
      get_mel_text_pair env self (audiopaths_and_text self ! index) out = (Inr (t, m, p), out1) \<and>
      invalid_sample self t m"
  then show "getitem env self (Suc depth) index (g, out) =
        (case random_randint env g 0 (length (audiopaths_and_text self) - 1) of
           (rv, g1) \<Rightarrow>
             getitem env self depth rv
               (g1, out1 @ (case m of None \<Rightarrow> []
                            | Some mel \<Rightarrow> [SampleException index (size1 mel) (length t) p])))"
    by (cases m) (auto simp: Let_def split: prod.splits)
next
  fix t mel p out1
  assume "index < length (audiopaths_and_text self) \<and>
      get_mel_text_pair env self (audiopaths_and_text self ! index) out =
        (Inr (t, Some mel, p), out1) \<and>
      \<not> invalid_sample self t (Some mel)"
  then show "getitem env self (Suc depth) index (g, out) = (finish_item self t mel p, g, out1)"
    by simp
next
  fix it g' out'
  assume "getitem env self depth index (g, out) = (Inr it, g', out')"
  then show "\<exists>k t m p o1 o2. k < length (audiopaths_and_text self) \<and>
         get_mel_text_pair env self (audiopaths_and_text self ! k) o1 = (Inr (t, Some m, p), o2) \<and>
         \<not> invalid_sample self t (Some m) \<and> finish_item self t m p = Inr it"
    by (rule getitem_returns_valid)
qed

text \<open>
  Claim C9. With \<open>needs_collate\<close> off, whatever dataset access returns is a dictionary with
  exactly the keys \<open>padded_text\<close>, \<open>input_lengths\<close>, \<open>padded_mel\<close>, \<open>output_lengths\<close> and
  \<open>filenames\<close>, in that order, and no \<open>padded_gate\<close>; \<open>input_lengths\<close> and \<open>output_lengths\<close>
  hold the token count and the frame count of the sample before padding.
\<close>

theorem C9_fixed_size_record:
  assumes nc: "\<not> needs_collate self"
    and res: "getitem env self depth index (g, out) = (Inr it, g', out')"
  shows "\<exists>k t m p o1 o2 mel_cap text_cap d.
           k < length (audiopaths_and_text self) \<and>
           get_mel_text_pair env self (audiopaths_and_text self ! k) o1 = (Inr (t, Some m, p), o2) \<and>
           max_mel_len self = Some mel_cap \<and> max_text_len self = Some text_cap \<and>
           size1 m \<le> mel_cap \<and> length t \<le> text_cap \<and>
           it = Dict d \<and>
           d = [(''padded_text'', IntTensor (t @ replicate (text_cap - length t) 0)),
                (''input_lengths'', LongScalar (length t)),
                (''padded_mel'', FloatTensor (if size1 m \<noteq> mel_cap then pad_last m (mel_cap - size1 m) else m)),
                (''output_lengths'', LongScalar (size1 m)),
                (''filenames'', Str p)] \<and>
           map fst d = [''padded_text'', ''input_lengths'', ''padded_mel'', ''output_lengths'', ''filenames''] \<and>
           map_of d ''padded_gate'' = None"
proof -
  from getitem_returns_valid[OF res] obtain k t m p o1 o2 where
    k: "k < length (audiopaths_and_text self)"
    and gp: "get_mel_text_pair env self (audiopaths_and_text self ! k) o1 = (Inr (t, Some m, p), o2)"
    and v: "\<not> invalid_sample self t (Some m)" and f: "finish_item self t m p = Inr it"
    by blast
  from f nc obtain mel_cap text_cap where caps: "max_mel_len self = Some mel_cap" "max_text_len self = Some text_cap"
    by (auto simp: finish_item_def Let_def split: option.splits)
  from v caps have le: "size1 m \<le> mel_cap" "length t \<le> text_cap"
    by (auto simp: invalid_sample_def)
  from f nc caps have "it = Dict [(''padded_text'', IntTensor (t @ replicate (text_cap - length t) 0)),
                (''input_lengths'', LongScalar (length t)),
                (''padded_mel'', FloatTensor (if size1 m \<noteq> mel_cap then pad_last m (mel_cap - size1 m) else m)),
                (''output_lengths'', LongScalar (size1 m)),
                (''filenames'', Str p)]"
    by (auto simp: finish_item_def Let_def)
  with k gp caps le show ?thesis by force
qed

lemmas getitem_eval = get_mel_text_pair_def invalid_sample_def finish_item_def get_mel_eval

lemma demo_getitem_retry: "getitem demo_env demo_loader (Suc (Suc (Suc 0))) 0 (0, []) =
   (Inr (Tuple [104, 105] (const_spec 2 2 (Fin 0)) ''ok.mp3''), 2,
    [SampleException 0 4 2 ''long.mp3'', SampleException 0 4 2 ''long.mp3''])"
  by (simp add: getitem_eval)

lemma demo_getitem_valid: "getitem demo_env demo_loader (Suc 0) 1 (0, []) =
   (Inr (Tuple [104, 105] (const_spec 2 2 (Fin 0)) ''ok.mp3''), 0, [])"
  by (simp add: getitem_eval)

lemma stuck_pair: "get_mel_text_pair stuck_env demo_loader (''long.mp3'', ''hi'') out =
     (Inr ([104, 105], Some (const_spec 2 4 (Fin 0)), ''long.mp3''), out)"
  by (simp add: stuck_env_def getitem_eval)

lemma stuck_forever: "fst (getitem stuck_env demo_loader depth 0 (g, out)) = Inl RecursionError"
proof (induction depth arbitrary: g out)
  case 0
  then show ?case by simp
next
  case (Suc depth)
  have e: "audiopaths_and_text demo_loader ! 0 = (''long.mp3'', ''hi'')" "length (audiopaths_and_text demo_loader) = 2"
    by (simp_all add: demo_loader_def)
  have inv: "invalid_sample demo_loader [104, 105] (Some (const_spec 2 4 (Fin 0)))"
    by (simp add: invalid_sample_def demo_loader_def const_spec_def)
  have r: "random_randint stuck_env g lo hi = (lo, g)" for lo hi
    by (simp add: stuck_env_def demo_env_def)
  show ?case
    using Suc.IH by (simp add: e stuck_pair inv r)
qed

text \<open>Index 0 holds a mel of four frames, over the cap of three: access prints the
  diagnostic, draws index 0 again, then index 1, and returns that sample. With no call
  left it raises RecursionError, at index 2 of two IndexError, and in a dataset whose
  only file is missing the IOError of the decoder.\<close>

theorem C4_retry_on_invalid_witness:
  "getitem demo_env demo_loader (Suc (Suc (Suc 0))) 0 (0, []) =
     getitem demo_env demo_loader (Suc (Suc 0)) 0 (1, [SampleException 0 4 2 ''long.mp3'']) \<and>
   getitem demo_env demo_loader (Suc (Suc (Suc 0))) 0 (0, []) =
     (Inr (Tuple [104, 105] (const_spec 2 2 (Fin 0)) ''ok.mp3''), 2,
      [SampleException 0 4 2 ''long.mp3'', SampleException 0 4 2 ''long.mp3'']) \<and>
   getitem demo_env demo_loader (Suc 0) 1 (0, []) =
     (Inr (Tuple [104, 105] (const_spec 2 2 (Fin 0)) ''ok.mp3''), 0, []) \<and>
   getitem demo_env demo_loader 0 1 (0, []) = (Inl RecursionError, 0, []) \<and>
   getitem demo_env demo_loader (Suc 0) 2 (0, []) = (Inl IndexError, 0, []) \<and>
   getitem demo_env broken_loader (Suc 0) 0 (0, []) = (Inl IOError, 0, [])"
proof -
  have i: "0 < length (audiopaths_and_text demo_loader)" by (simp add: demo_loader_def)
  have p: "get_mel_text_pair demo_env demo_loader (audiopaths_and_text demo_loader ! 0) [] =
      (Inr ([104, 105], Some (const_spec 2 4 (Fin 0)), ''long.mp3''), [])"
    by (simp add: getitem_eval)
  have v: "invalid_sample demo_loader [104, 105] (Some (const_spec 2 4 (Fin 0)))"
    by (simp add: invalid_sample_def demo_loader_def const_spec_def)
  have r: "random_randint demo_env 0 0 (length (audiopaths_and_text demo_loader) - 1) = (0, 1)"
    by (simp add: demo_env_def demo_loader_def)
  note c = C4_retry_on_invalid[of demo_env demo_loader 0 0 "[]" "Suc (Suc 0)"]
  from c i p v
  have "getitem demo_env demo_loader (Suc (Suc (Suc 0))) 0 (0, []) =
        (case random_randint demo_env 0 0 (length (audiopaths_and_text demo_loader) - 1) of
           (rv, g1) \<Rightarrow>
             getitem demo_env demo_loader (Suc (Suc 0)) rv
               (g1, [] @ [SampleException 0 (size1 (const_spec 2 4 (Fin 0))) (length [104, 105 :: int])
                            ''long.mp3'']))"
    by (simp del: getitem.simps)
  then have 1: "getitem demo_env demo_loader (Suc (Suc (Suc 0))) 0 (0, []) =
     getitem demo_env demo_loader (Suc (Suc 0)) 0 (1, [SampleException 0 4 2 ''long.mp3''])"
    using r by (simp add: const_spec_def numeral_2_eq_2 del: getitem.simps)
  have i1: "1 < length (audiopaths_and_text demo_loader)" by (simp add: demo_loader_def)
  have p1: "get_mel_text_pair demo_env demo_loader (audiopaths_and_text demo_loader ! 1) [] =
      (Inr ([104, 105], Some (const_spec 2 2 (Fin 0)), ''ok.mp3''), [])"
    by (simp add: getitem_eval)
  have v1: "\<not> invalid_sample demo_loader [104, 105] (Some (const_spec 2 2 (Fin 0)))"
    by (simp add: invalid_sample_def demo_loader_def const_spec_def)
  have f1: "finish_item demo_loader [104, 105] (const_spec 2 2 (Fin 0)) ''ok.mp3'' =
      Inr (Tuple [104, 105] (const_spec 2 2 (Fin 0)) ''ok.mp3'')"
    by (simp add: finish_item_def demo_loader_def)
  from C4_retry_on_invalid[of demo_env demo_loader 1 0 "[]" 0] i1 p1 v1 f1
  have 2: "getitem demo_env demo_loader (Suc 0) 1 (0, []) =
     (Inr (Tuple [104, 105] (const_spec 2 2 (Fin 0)) ''ok.mp3''), 0, [])"
    and 3: "getitem demo_env demo_loader 0 1 (0, []) = (Inl RecursionError, 0, [])"
    by (simp_all del: getitem.simps)
  have i2: "length (audiopaths_and_text demo_loader) \<le> 2" by (simp add: demo_loader_def)
  from C4_retry_on_invalid[of demo_env demo_loader 2 0 "[]" 0] i2
  have 4: "getitem demo_env demo_loader (Suc 0) 2 (0, []) = (Inl IndexError, 0, [])"
    by (simp del: getitem.simps)
  have i3: "0 < length (audiopaths_and_text broken_loader)"
    by (simp add: broken_loader_def demo_loader_def)
  have p3: "get_mel_text_pair demo_env broken_loader (audiopaths_and_text broken_loader ! 0) [] =
      (Inl IOError, [])"
    by (simp add: broken_loader_def getitem_eval)
  from C4_retry_on_invalid[of demo_env broken_loader 0 0 "[]" 0] i3 p3
  have 5: "getitem demo_env broken_loader (Suc 0) 0 (0, []) = (Inl IOError, 0, [])"
    by (simp del: getitem.simps)
  from 1 2 3 4 5 demo_getitem_retry show ?thesis by (simp del: getitem.simps)
qed

text \<open>
  Claim C4 as stated, in a dataset whose index 0 is invalid and whose index 1 is valid.
  The first draw after index 0 is index 0 again, not a different index. And with a
  generator that keeps drawing index 0, access raises RecursionError a thousand levels
  down, although a valid sample exists.
\<close>

theorem C4_same_index_counterexample:
  "fst (random_randint demo_env 0 0 (length (audiopaths_and_text demo_loader) - 1)) = 0 \<and>
   getitem demo_env demo_loader (Suc (Suc (Suc 0))) 0 (0, []) =
     (Inr (Tuple [104, 105] (const_spec 2 2 (Fin 0)) ''ok.mp3''), 2,
      [SampleException 0 4 2 ''long.mp3'', SampleException 0 4 2 ''long.mp3'']) \<and>
   getitem stuck_env demo_loader (Suc 0) 1 (0, []) =
     (Inr (Tuple [104, 105] (const_spec 2 2 (Fin 0)) ''ok.mp3''), 0, []) \<and>
   fst (getitem stuck_env demo_loader 1000 0 (0, [])) = Inl RecursionError"
proof -
  have "fst (random_randint demo_env 0 0 (length (audiopaths_and_text demo_loader) - 1)) = 0"
    by (simp add: demo_env_def demo_loader_def)
  moreover have "getitem stuck_env demo_loader (Suc 0) 1 (0, []) =
     (Inr (Tuple [104, 105] (const_spec 2 2 (Fin 0)) ''ok.mp3''), 0, [])"
    by (simp add: stuck_env_def getitem_eval)
  ultimately show ?thesis using demo_getitem_retry stuck_forever by simp
qed

text \<open>The valid sample of index 1, two tokens and two frames, comes back padded to five
  tokens and three frames, under the five keys.\<close>

theorem C9_fixed_size_record_witness:
  "getitem demo_env fixed_loader (Suc 0) 1 (0, []) =
     (Inr (Dict [(''padded_text'', IntTensor [104, 105, 0, 0, 0]),
                 (''input_lengths'', LongScalar 2),
                 (''padded_mel'', FloatTensor (pad_last (const_spec 2 2 (Fin 0)) 1)),
                 (''output_lengths'', LongScalar 2),
                 (''filenames'', Str ''ok.mp3'')]), 0, []) \<and>
   map_of [(''padded_text'', IntTensor [104, 105, 0, 0, 0]),
           (''input_lengths'', LongScalar 2),
           (''padded_mel'', FloatTensor (pad_last (const_spec 2 2 (Fin 0)) 1)),
           (''output_lengths'', LongScalar 2),
           (''filenames'', Str ''ok.mp3'')] ''padded_gate'' = None"
proof -
  have nc: "\<not> needs_collate fixed_loader" by (simp add: fixed_loader_def)
  have res: "getitem demo_env fixed_loader (Suc 0) 1 (0, []) =
     (Inr (Dict [(''padded_text'', IntTensor [104, 105, 0, 0, 0]),
                 (''input_lengths'', LongScalar 2),
                 (''padded_mel'', FloatTensor (pad_last (const_spec 2 2 (Fin 0)) 1)),
                 (''output_lengths'', LongScalar 2),
                 (''filenames'', Str ''ok.mp3'')]), 0, [])"
  proof -
    have 1: "replicate 3 (0::int) = [0, 0, 0]" by (simp add: numeral_3_eq_3)
    have 2: "Suc (Suc 0) = 2" by simp
    show ?thesis by (simp add: fixed_loader_def getitem_eval 1 2)
  qed
  from C9_fixed_size_record[OF nc res]
  have "map_of [(''padded_text'', IntTensor [104, 105, 0, 0, 0]),
           (''input_lengths'', LongScalar 2),
           (''padded_mel'', FloatTensor (pad_last (const_spec 2 2 (Fin 0)) 1)),
           (''output_lengths'', LongScalar 2),
           (''filenames'', Str ''ok.mp3'')] ''padded_gate'' = None"
    by auto
  with res show ?thesis by simp
qed

end
